theory Spec2Isabelle
  imports Main
begin

section \<open>Python values and strings\<close>

text \<open>
  A Python \<open>str\<close> is modelled as a \<open>string\<close>: one \<open>char\<close> per character of the
  Python string, the characters with code 128 and above standing for the non-ASCII ones
  (every test of the program on a non-ASCII character goes through \<open>isascii\<close> first, or
  is a whitespace test). Bytes are modelled as a \<open>string\<close> too.
\<close>

definition isascii :: "char \<Rightarrow> bool" where
  "isascii c = ((of_char c :: nat) < 128)"

text \<open>\<open>str.isalnum\<close> on one character, for the ASCII characters (the program only asks it
  behind \<open>c.isascii() and ...\<close>).\<close>

definition isalnum :: "char \<Rightarrow> bool" where
  "isalnum c = (let n = (of_char c :: nat) in
     (48 \<le> n \<and> n \<le> 57) \<or> (65 \<le> n \<and> n \<le> 90) \<or> (97 \<le> n \<and> n \<le> 122))"

text \<open>\<open>str.isspace\<close> on one character: the whitespace characters below 256.\<close>

definition isspace :: "char \<Rightarrow> bool" where
  "isspace c = (let n = (of_char c :: nat) in
     (9 \<le> n \<and> n \<le> 13) \<or> (28 \<le> n \<and> n \<le> 32) \<or> n = 133 \<or> n = 160)"

text \<open>\<open>s.strip()\<close>: leading and trailing whitespace removed.\<close>

definition strip :: "string \<Rightarrow> string" where
  "strip s = rev (dropWhile isspace (rev (dropWhile isspace s)))"

text \<open>\<open>s.replace(a, b)\<close> for single characters \<open>a\<close> and \<open>b\<close>.\<close>

definition replace :: "char \<Rightarrow> char \<Rightarrow> string \<Rightarrow> string" where
  "replace a b s = map (\<lambda>c. if c = a then b else c) s"

text \<open>\<open>s.startswith(p)\<close>.\<close>

definition startswith :: "string \<Rightarrow> string \<Rightarrow> bool" where
  "startswith s p = (take (length p) s = p)"

section \<open>File names\<close>

text \<open>
  Both provider routines build the file name the same way (lines 103-106 and 174-178):
  \<^verbatim>\<open>
  timestamp = datetime.now().strftime("%Y%m%d_%H%M%S")
  safe_prompt = "".join(c if (c.isascii() and (c.isalnum() or c in (' ', '-', '_')))
                        else '_' for c in prompt[:50])
  safe_prompt = safe_prompt.strip().replace(' ', '_')
  filename = f"{timestamp}_HF_{safe_prompt}.png"     # huggingface
  filename = f"{timestamp}_{safe_prompt}.png"        # openai
  \<close>
\<close>

definition safe_char :: "char \<Rightarrow> char" where
  "safe_char c =
     (if isascii c \<and> (isalnum c \<or> c \<in> set [CHR '' '', CHR ''-'', CHR ''_'']) then c
      else CHR ''_'')"

definition safe_prompt :: "string \<Rightarrow> string" where
  "safe_prompt prompt = replace CHR '' '' CHR ''_'' (strip (map safe_char (take 50 prompt)))"

text \<open>The value of \<open>datetime.now()\<close>: a year from 1 to 9999, a month, a day and a time
  of day.\<close>

record datetime =
  year :: nat
  month :: nat
  day :: nat
  hour :: nat
  minute :: nat
  second :: nat

definition digit :: "nat \<Rightarrow> char" where
  "digit n = char_of (48 + n mod 10)"

text \<open>\<open>%m\<close>, \<open>%d\<close>, \<open>%H\<close>, \<open>%M\<close>, \<open>%S\<close>: two digits, zero padded.\<close>

definition pad2 :: "nat \<Rightarrow> string" where
  "pad2 n = [digit (n div 10), digit n]"

text \<open>\<open>%Y\<close>: the year with century, four digits for the years 1000 to 9999.\<close>

definition pad4 :: "nat \<Rightarrow> string" where
  "pad4 n = [digit (n div 1000), digit (n div 100), digit (n div 10), digit n]"

definition strftime :: "datetime \<Rightarrow> string" where
  "strftime t = pad4 (year t) @ pad2 (month t) @ pad2 (day t) @ ''_''
                @ pad2 (hour t) @ pad2 (minute t) @ pad2 (second t)"

definition hf_filename :: "datetime \<Rightarrow> string \<Rightarrow> string" where
  "hf_filename now prompt = strftime now @ ''_HF_'' @ safe_prompt prompt @ ''.png''"

definition openai_filename :: "datetime \<Rightarrow> string \<Rightarrow> string" where
  "openai_filename now prompt = strftime now @ ''_'' @ safe_prompt prompt @ ''.png''"

section \<open>Credentials\<close>

text \<open>
  The values the program handles as credentials: \<open>None\<close>, a string, or whatever
  \<open>json.load\<close> found in the configuration file. A dict is the list of its items, looked
  up with \<open>map_of\<close>. Numbers with a fraction or an exponent are not modelled.
\<close>

datatype pyval =
    PNone
  | PBool bool
  | PInt int
  | PStr string
  | PList "pyval list"
  | PDict "(string \<times> pyval) list"

datatype exn =
    OSError
  | JSONDecodeError
  | TypeError
  | KeyError
  | AttributeError
  | IndexError
  | RuntimeError
  | RequestException
  | APIError

text \<open>The truth value of a Python value, as \<open>if x:\<close>, \<open>not x\<close> and \<open>x or y\<close> take it.\<close>

fun truthy :: "pyval \<Rightarrow> bool" where
  "truthy PNone = False"
| "truthy (PBool b) = b"
| "truthy (PInt i) = (i \<noteq> 0)"
| "truthy (PStr s) = (s \<noteq> [])"
| "truthy (PList xs) = (xs \<noteq> [])"
| "truthy (PDict kvs) = (kvs \<noteq> [])"

text \<open>\<open>a or b\<close> where evaluating \<open>b\<close> raises nothing.\<close>

definition py_or :: "pyval \<Rightarrow> pyval \<Rightarrow> pyval" where
  "py_or a b = (if truthy a then a else b)"

text \<open>\<open>os.getenv(k)\<close>: the process environment is a map from names to strings.\<close>

definition getenv :: "(string \<rightharpoonup> string) \<Rightarrow> string \<Rightarrow> pyval" where
  "getenv environ k = (case environ k of None \<Rightarrow> PNone | Some s \<Rightarrow> PStr s)"

text \<open>\<open>d.get(k, default)\<close>; on a value that is no dict the attribute is missing.\<close>

fun py_get :: "pyval \<Rightarrow> string \<Rightarrow> pyval \<Rightarrow> exn + pyval" where
  "py_get (PDict kvs) k d = Inr (case map_of kvs k of None \<Rightarrow> d | Some v \<Rightarrow> v)"
| "py_get _ k d = Inl AttributeError"

text \<open>\<open>config[k]\<close> for a string \<open>k\<close>.\<close>

fun subscript :: "pyval \<Rightarrow> string \<Rightarrow> exn + pyval" where
  "subscript (PDict kvs) k = (case map_of kvs k of None \<Rightarrow> Inl KeyError | Some v \<Rightarrow> Inr v)"
| "subscript _ k = Inl TypeError"

fun contains_str :: "string \<Rightarrow> string \<Rightarrow> bool" where
  "contains_str [] p = (p = [])"
| "contains_str (c # s) p = (startswith (c # s) p \<or> contains_str s p)"

text \<open>\<open>k in config\<close> for a string \<open>k\<close>: a key of a dict, an element of a list, a
  substring of a string; the other values are not iterable.\<close>

fun py_in :: "string \<Rightarrow> pyval \<Rightarrow> exn + bool" where
  "py_in k (PDict kvs) = Inr (k \<in> set (map fst kvs))"
| "py_in k (PList xs) = Inr (PStr k \<in> set xs)"
| "py_in k (PStr s) = Inr (contains_str s k)"
| "py_in k _ = Inl TypeError"

text \<open>\<open>s.split(sep, 1)\<close> and \<open>xs[i]\<close>.\<close>

definition split1 :: "char \<Rightarrow> string \<Rightarrow> string list" where
  "split1 sep s =
     (if sep \<in> set s
      then [takeWhile (\<lambda>c. c \<noteq> sep) s, tl (dropWhile (\<lambda>c. c \<noteq> sep) s)]
      else [s])"

definition index :: "'a list \<Rightarrow> nat \<Rightarrow> exn + 'a" where
  "index xs i = (if i < length xs then Inr (xs ! i) else Inl IndexError)"

record api_keys =
  openai :: pyval
  huggingface :: pyval

text \<open>
  The \<open>.env\<close> file beside the script: absent, not readable (\<open>exists\<close>, \<open>open\<close> or
  the iteration over the lines raises, all outside any \<open>try\<close>), or its lines, each
  with its line end.
\<close>

datatype dotenv_file = Dotenv_absent | Dotenv_unreadable | Dotenv_lines "string list"

text \<open>
  The body of the loop over the lines (lines 36-39):
  \<^verbatim>\<open>
  if line.startswith('OPENAI_API_KEY='):
      keys['openai'] = keys['openai'] or line.strip().split('=', 1)[1]
  elif line.startswith('HUGGINGFACE_API_KEY=') or line.startswith('HF_TOKEN='):
      keys['huggingface'] = keys['huggingface'] or line.strip().split('=', 1)[1]
  \<close>
  The right operand of \<open>or\<close> is evaluated only when the left one is false.
\<close>

definition dotenv_line :: "api_keys \<Rightarrow> string \<Rightarrow> exn + api_keys" where
  "dotenv_line keys line =
     (if startswith line ''OPENAI_API_KEY='' then
        (if truthy (openai keys) then Inr keys
         else case index (split1 CHR ''='' (strip line)) 1 of
                Inl e \<Rightarrow> Inl e
              | Inr v \<Rightarrow> Inr (keys\<lparr>openai := PStr v\<rparr>))
      else if startswith line ''HUGGINGFACE_API_KEY='' \<or> startswith line ''HF_TOKEN='' then
        (if truthy (huggingface keys) then Inr keys
         else case index (split1 CHR ''='' (strip line)) 1 of
                Inl e \<Rightarrow> Inl e
              | Inr v \<Rightarrow> Inr (keys\<lparr>huggingface := PStr v\<rparr>))
      else Inr keys)"

fun dotenv_loop :: "api_keys \<Rightarrow> string list \<Rightarrow> exn + api_keys" where
  "dotenv_loop keys [] = Inr keys"
| "dotenv_loop keys (line # ls) =
     (case dotenv_line keys line of Inl e \<Rightarrow> Inl e | Inr keys' \<Rightarrow> dotenv_loop keys' ls)"

text \<open>
  The configuration file \<open>~/.cursor/cli-config.json\<close>. Lines 42 and 43 stand before
  the \<open>try\<close>: \<open>Path.home()\<close> raises when no home directory can be found, and
  \<open>exists()\<close> raises when the file cannot be looked at (a directory on the way that
  may not be searched). Otherwise the file is absent, present but not readable (\<open>open\<close>
  raises), not JSON (\<open>json.load\<close> raises), or holds the value \<open>json.load\<close> returns.
\<close>

datatype config_file =
    Config_no_home
  | Config_inaccessible
  | Config_absent
  | Config_unreadable
  | Config_invalid
  | Config_json pyval

text \<open>\<open>config['env'].get(k)\<close>.\<close>

definition env_get :: "pyval \<Rightarrow> string \<Rightarrow> exn + pyval" where
  "env_get config k =
     (case subscript config ''env'' of
        Inl e \<Rightarrow> Inl e
      | Inr env \<Rightarrow> py_get env k PNone)"

text \<open>Line 49:
  \<^verbatim>\<open>keys['openai'] = keys['openai'] or config['env'].get('OPENAI_API_KEY')\<close>\<close>

definition config_openai :: "pyval \<Rightarrow> api_keys \<Rightarrow> exn + api_keys" where
  "config_openai config keys =
     (if truthy (openai keys) then Inr keys
      else (case env_get config ''OPENAI_API_KEY'' of
              Inl e \<Rightarrow> Inl e
            | Inr v \<Rightarrow> Inr (keys\<lparr>openai := v\<rparr>)))"

text \<open>Line 50:
  \<^verbatim>\<open>keys['huggingface'] = keys['huggingface'] or config['env'].get('HUGGINGFACE_API_KEY')
                          or config['env'].get('HF_TOKEN')\<close>\<close>

definition config_huggingface :: "pyval \<Rightarrow> api_keys \<Rightarrow> exn + api_keys" where
  "config_huggingface config keys =
     (if truthy (huggingface keys) then Inr keys
      else (case env_get config ''HUGGINGFACE_API_KEY'' of
              Inl e \<Rightarrow> Inl e
            | Inr v \<Rightarrow>
                (if truthy v then Inr (keys\<lparr>huggingface := v\<rparr>)
                 else (case env_get config ''HF_TOKEN'' of
                         Inl e \<Rightarrow> Inl e
                       | Inr v' \<Rightarrow> Inr (keys\<lparr>huggingface := v'\<rparr>)))))"

text \<open>
  Lines 48-50 inside the \<open>try\<close>. \<open>keys\<close> is a dict that the body updates in place, so
  what line 49 stored stays when line 50 raises; \<open>except Exception: pass\<close> drops the
  exception.
\<close>

definition config_body :: "pyval \<Rightarrow> api_keys \<Rightarrow> api_keys" where
  "config_body config keys =
     (case py_in ''env'' config of
        Inl e \<Rightarrow> keys
      | Inr False \<Rightarrow> keys
      | Inr True \<Rightarrow>
          (case config_openai config keys of
             Inl e \<Rightarrow> keys
           | Inr keys1 \<Rightarrow>
               (case config_huggingface config keys1 of
                  Inl e \<Rightarrow> keys1
                | Inr keys2 \<Rightarrow> keys2)))"

text \<open>Lines 42-52: what raises before the \<open>try\<close> leaves the routine, what raises
  inside it is dropped.\<close>

definition load_config :: "config_file \<Rightarrow> api_keys \<Rightarrow> exn + api_keys" where
  "load_config cfg keys =
     (case cfg of
        Config_no_home \<Rightarrow> Inl RuntimeError
      | Config_inaccessible \<Rightarrow> Inl OSError
      | Config_absent \<Rightarrow> Inr keys
      | Config_unreadable \<Rightarrow> Inr keys
      | Config_invalid \<Rightarrow> Inr keys
      | Config_json config \<Rightarrow> Inr (config_body config keys))"

definition load_api_keys ::
  "(string \<rightharpoonup> string) \<Rightarrow> dotenv_file \<Rightarrow> config_file \<Rightarrow> exn + api_keys" where
  "load_api_keys environ dotenv cfg =
     (let keys = \<lparr>openai = getenv environ ''OPENAI_API_KEY'',
                  huggingface = py_or (getenv environ ''HUGGINGFACE_API_KEY'')
                                      (getenv environ ''HF_TOKEN'')\<rparr>
      in case dotenv of
           Dotenv_absent \<Rightarrow> load_config cfg keys
         | Dotenv_unreadable \<Rightarrow> Inl OSError
         | Dotenv_lines ls \<Rightarrow>
             (case dotenv_loop keys ls of
                Inl e \<Rightarrow> Inl e
              | Inr keys' \<Rightarrow> load_config cfg keys'))"

section \<open>The outside world\<close>

text \<open>
  What the program prints is a list of lines. The emoji that starts a line is an \<open>icon\<close>,
  the rest of the line is ASCII text. A value or an exception that an f-string
  interpolates is kept as it is, after the text. \<open>traceback.print_exc()\<close> and the
  interpreter's report of an uncaught exception are a \<open>Traceback\<close> line.
\<close>

datatype icon =
    No_icon | Art | Memo | Robot | Money | Hourglass | Cross | Check
  | Ruler | Sparkles | Link | Bulb | Warning | Info

datatype line =
    Line icon string
  | Line_val icon string pyval
  | Line_exn icon string exn
  | Traceback exn

record response =
  status_code :: int
  content :: string
  json :: "exn + pyval"

datatype http_reply = Raises exn | Response response

text \<open>What \<open>client.images.generate\<close> does: it raises, or returns a response whose
  \<open>data\<close> items each have a \<open>url\<close> (a string or \<open>None\<close>).\<close>

datatype openai_reply = Generate_raises exn | Generate_returns "string option list"

text \<open>The POST to the inference endpoint: URL, bearer token of the \<open>Authorization\<close>
  header, the \<open>inputs\<close> of the JSON body, the timeout in seconds.\<close>

record hf_request =
  url :: string
  bearer :: pyval
  inputs :: string
  timeout :: nat

text \<open>\<open>request_params\<close>; the key \<open>quality\<close> may be missing.\<close>

record openai_request =
  rq_model :: string
  rq_prompt :: string
  rq_size :: string
  rq_n :: nat
  rq_quality :: "string option"

text \<open>Every operation on the outside world, with what the world answered: the reply
  for a network call, for a file operation whether it went through.\<close>

datatype effect =
    HF_post hf_request http_reply
  | Sleep nat
  | OpenAI_generate pyval openai_request openai_reply
  | Http_get string http_reply
  | Mkdir string bool
  | Open_wb string bool
  | Write string string bool

text \<open>The state a run changes: the files (path to content), the printed lines, the
  operations performed so far.\<close>

record world =
  fs :: "string \<rightharpoonup> string"
  out :: "line list"
  trace :: "effect list"

text \<open>
  The answers of the outside world during one run: the clock, the expanded output
  directory (\<open>str(Path(output_dir).expanduser())\<close>, or the exception it raises), the
  reply to the first POST and to its retry, to the generation call and to the download,
  and whether \<open>mkdir\<close>, \<open>open\<close> and \<open>write\<close> go through.
\<close>

record answers =
  now :: datetime
  expanduser :: "string \<Rightarrow> exn + string"
  post1 :: http_reply
  post2 :: http_reply
  generate :: openai_reply
  get :: http_reply
  mkdir_ok :: bool
  open_ok :: bool
  write_ok :: bool

definition print :: "line list \<Rightarrow> world \<Rightarrow> world" where
  "print ls w = w\<lparr>out := out w @ ls\<rparr>"

definition perform :: "effect \<Rightarrow> world \<Rightarrow> world" where
  "perform e w = w\<lparr>trace := trace w @ [e]\<rparr>"

section \<open>Saving the image\<close>

text \<open>
  Both provider routines save the same way (lines 109-114 and 182-187):
  \<^verbatim>\<open>
  output_dir_expanded = Path(output_dir).expanduser()
  output_path = output_dir_expanded / filename
  output_path.parent.mkdir(parents=True, exist_ok=True)
  with open(output_path, 'wb') as f:
      f.write(image_data)
  \<close>
  The path is the expanded directory, a slash and the file name. \<open>open(..., 'wb')\<close>
  creates the file empty (or empties it); a \<open>write\<close> that raises leaves it so. The
  result is the path, or the exception raised, with the world as it is by then.
\<close>

definition save_image ::
  "answers \<Rightarrow> string \<Rightarrow> string \<Rightarrow> string \<Rightarrow> world \<Rightarrow> (exn + string) \<times> world" where
  "save_image a output_dir filename image_data w =
     (case expanduser a output_dir of
        Inl e \<Rightarrow> (Inl e, w)
      | Inr dir \<Rightarrow>
          (let output_path = dir @ ''/'' @ filename;
               w1 = perform (Mkdir dir (mkdir_ok a)) w
           in if \<not> mkdir_ok a then (Inl OSError, w1)
              else
                (let w2 = perform (Open_wb output_path (open_ok a)) w1
                 in if \<not> open_ok a then (Inl OSError, w2)
                    else
                      (let w3 = w2\<lparr>fs := (fs w2)(output_path \<mapsto> [])\<rparr>;
                           w4 = perform (Write output_path image_data (write_ok a)) w3
                       in if \<not> write_ok a then (Inl OSError, w4)
                          else (Inr output_path,
                                w4\<lparr>fs := (fs w4)(output_path \<mapsto> image_data)\<rparr>)))))"

section \<open>The free provider\<close>

definition hf_request_of :: "string \<Rightarrow> pyval \<Rightarrow> string \<Rightarrow> hf_request" where
  "hf_request_of prompt hf_token hf_model =
     \<lparr>url = ''https://api-inference.huggingface.co/models/'' @ hf_model,
      bearer = hf_token, inputs = prompt, timeout = 30\<rparr>"

text \<open>Lines 95-119, inside the \<open>try\<close>: the check of the final response, the save and
  the two lines printed after it. \<open>Inr None\<close> is the \<open>return None\<close> of line 98.\<close>

definition hf_finish ::
  "answers \<Rightarrow> string \<Rightarrow> string \<Rightarrow> response \<Rightarrow> world \<Rightarrow> (exn + string option) \<times> world" where
  "hf_finish a prompt output_dir r w =
     (if status_code r \<noteq> 200 then
        (case json r of
           Inl e \<Rightarrow> (Inl e, w)
         | Inr v \<Rightarrow>
             (case py_get v ''error'' (PStr ''Unknown error'') of
                Inl e \<Rightarrow> (Inl e, w)
              | Inr error_msg \<Rightarrow>
                  (Inr None, print [Line_val Cross '' HuggingFace API error: '' error_msg] w)))
      else
        (case save_image a output_dir (hf_filename (now a) prompt) (content r) w of
           (Inl e, w') \<Rightarrow> (Inl e, w')
         | (Inr output_path, w') \<Rightarrow>
             (Inr (Some output_path),
              print [Line Check ('' Successfully saved: '' @ output_path),
                     Line Money '' Cost: $0.00 (free)''] w')))"

text \<open>Lines 79-93, then the rest of the \<open>try\<close>.\<close>

definition hf_try ::
  "answers \<Rightarrow> string \<Rightarrow> pyval \<Rightarrow> string \<Rightarrow> string \<Rightarrow> world
     \<Rightarrow> (exn + string option) \<times> world" where
  "hf_try a prompt hf_token hf_model output_dir w =
     (let rq = hf_request_of prompt hf_token hf_model;
          w1 = perform (HF_post rq (post1 a)) w
      in case post1 a of
           Raises e \<Rightarrow> (Inl e, w1)
         | Response r \<Rightarrow>
             (if status_code r = 503 then
                (let w2 = print [Line Hourglass
                     '' Model is loading on HuggingFace servers, this may take ~20 seconds...''] w1;
                     w3 = perform (Sleep 20) w2;
                     w4 = perform (HF_post rq (post2 a)) w3
                 in case post2 a of
                      Raises e \<Rightarrow> (Inl e, w4)
                    | Response r' \<Rightarrow> hf_finish a prompt output_dir r' w4)
              else hf_finish a prompt output_dir r w1))"

definition generate_image_huggingface ::
  "answers \<Rightarrow> string \<Rightarrow> pyval \<Rightarrow> string \<Rightarrow> string \<Rightarrow> world \<Rightarrow> string option \<times> world" where
  "generate_image_huggingface a prompt hf_token hf_model output_dir w =
     (let w0 = print [Line Art '' Generating image via Hugging Face...'',
                      Line Memo ('' Prompt: '' @ prompt),
                      Line Robot ('' Model: '' @ hf_model),
                      Line Money '' Cost: FREE!'',
                      Line No_icon []] w
      in case hf_try a prompt hf_token hf_model output_dir w0 of
           (Inl e, w') \<Rightarrow>
             (None, print [Line_exn Cross '' Error generating via HuggingFace: '' e] w')
         | (Inr result, w') \<Rightarrow> (result, w'))"

section \<open>The paid provider\<close>

text \<open>
  Lines 193-200. The source computes the cost in dollars as a float and prints it with
  three decimals; the model counts thousandths of a dollar, which is what is printed.
\<close>

definition cost_thousandths :: "string \<Rightarrow> string \<Rightarrow> string \<Rightarrow> nat" where
  "cost_thousandths model' quality' size' =
     (if model' = ''dall-e-3'' then
        (let cost = (if quality' = ''standard'' then 40 else 80)
         in if size' \<in> set [''1792x1024'', ''1024x1792''] then cost * 2 else cost)
      else (if size' = ''1024x1024'' then 20 else 18))"

definition format_cost :: "nat \<Rightarrow> string" where
  "format_cost n = ''0.'' @ [digit (n div 100), digit (n div 10), digit n]"

text \<open>Lines 153-162: the parameters of the generation call.\<close>

definition request_params :: "string \<Rightarrow> string \<Rightarrow> string \<Rightarrow> string \<Rightarrow> openai_request" where
  "request_params prompt size' quality' model' =
     \<lparr>rq_model = model', rq_prompt = prompt, rq_size = size', rq_n = 1,
      rq_quality = (if model' = ''dall-e-3'' then Some quality' else None)\<rparr>"

text \<open>
  Lines 164-171: the generation call, \<open>response.data[0].url\<close> and the download.
  \<open>requests.get\<close> raises on a \<open>url\<close> that is \<open>None\<close> before it sends anything; the
  status of the download's response is not looked at.
\<close>

definition openai_fetch ::
  "answers \<Rightarrow> string \<Rightarrow> pyval \<Rightarrow> string \<Rightarrow> string \<Rightarrow> string \<Rightarrow> world
     \<Rightarrow> (exn + string \<times> string) \<times> world" where
  "openai_fetch a prompt api_key size' quality' model' w =
     (let w1 = perform (OpenAI_generate api_key (request_params prompt size' quality' model')
                          (generate a)) w
      in case generate a of
           Generate_raises e \<Rightarrow> (Inl e, w1)
         | Generate_returns data \<Rightarrow>
             (case index data 0 of
                Inl e \<Rightarrow> (Inl e, w1)
              | Inr None \<Rightarrow> (Inl RequestException, w1)
              | Inr (Some image_url) \<Rightarrow>
                  (let w2 = perform (Http_get image_url (get a)) w1
                   in case get a of
                        Raises e \<Rightarrow> (Inl e, w2)
                      | Response r \<Rightarrow> (Inr (image_url, content r), w2))))"

text \<open>The body of the \<open>try\<close>, lines 152-202.\<close>

definition openai_try ::
  "answers \<Rightarrow> string \<Rightarrow> pyval \<Rightarrow> string \<Rightarrow> string \<Rightarrow> string \<Rightarrow> string \<Rightarrow> world
     \<Rightarrow> (exn + string) \<times> world" where
  "openai_try a prompt api_key size' quality' model' output_dir w =
     (case openai_fetch a prompt api_key size' quality' model' w of
        (Inl e, w') \<Rightarrow> (Inl e, w')
      | (Inr (image_url, image_data), w') \<Rightarrow>
          (case save_image a output_dir (openai_filename (now a) prompt) image_data w' of
             (Inl e, w'') \<Rightarrow> (Inl e, w'')
           | (Inr output_path, w'') \<Rightarrow>
               (Inr output_path,
                print [Line Check ('' Successfully saved: '' @ output_path),
                       Line Link ('' Original URL: '' @ image_url),
                       Line Money ('' Request cost: $''
                         @ format_cost (cost_thousandths model' quality' size'))] w'')))"

text \<open>Lines 144-149: what the routine prints of its arguments before it starts.\<close>

definition openai_banner :: "string \<Rightarrow> string \<Rightarrow> string \<Rightarrow> string \<Rightarrow> line list" where
  "openai_banner prompt size' quality' model' =
     [Line Art '' Generating image via OpenAI DALL-E...'',
      Line Memo ('' Prompt: '' @ prompt),
      Line Ruler ('' Size: '' @ size'),
      Line Sparkles ('' Quality: '' @ quality'),
      Line Robot ('' Model: '' @ model'),
      Line No_icon []]"

definition generate_image_openai ::
  "answers \<Rightarrow> string \<Rightarrow> pyval \<Rightarrow> string \<Rightarrow> string \<Rightarrow> string \<Rightarrow> string \<Rightarrow> world
     \<Rightarrow> string option \<times> world" where
  "generate_image_openai a prompt api_key size' quality' model' output_dir w =
     (let w0 = print (openai_banner prompt size' quality' model') w
      in case openai_try a prompt api_key size' quality' model' output_dir w0 of
           (Inl e, w') \<Rightarrow>
             (None, print [Line_exn Cross '' Error generating via OpenAI: '' e,
                           Line No_icon [],
                           Line No_icon ''Error details:'',
                           Traceback e] w')
         | (Inr output_path, w') \<Rightarrow> (Some output_path, w'))"

section \<open>The command line and \<open>main\<close>\<close>

text \<open>The namespace \<open>parse_args\<close> returns. \<open>argparse\<close> rejects a \<open>--provider\<close>,
  \<open>--size\<close>, \<open>--quality\<close> or \<open>--model\<close> outside its \<open>choices\<close>.\<close>

record args =
  args_prompt :: string
  args_provider :: string
  args_hf_model :: string
  args_size :: string
  args_quality :: string
  args_model :: string
  args_output_dir :: string

definition provider_choices :: "string list" where
  "provider_choices = [''auto'', ''huggingface'', ''openai'']"

definition size_choices :: "string list" where
  "size_choices = [''1024x1024'', ''1792x1024'', ''1024x1792'', ''256x256'', ''512x512'']"

definition quality_choices :: "string list" where
  "quality_choices = [''standard'', ''hd'']"

definition model_choices :: "string list" where
  "model_choices = [''dall-e-3'', ''dall-e-2'']"

definition dq :: "string \<Rightarrow> string" where
  "dq s = [CHR 0x22] @ s @ [CHR 0x22]"

text \<open>Lines 340-346: the parameters DALL-E 2 does not support are replaced, each with
  a warning.\<close>

definition quality_warning :: line where
  "quality_warning =
     Line Warning (''  Warning: DALL-E 2 doesn'' @ [CHR 0x27]
                   @ ''t support HD quality, using standard'')"

definition size_warning :: line where
  "size_warning =
     Line Warning (''  Warning: DALL-E 2 doesn'' @ [CHR 0x27]
                   @ ''t support large sizes, using 1024x1024'')"

definition validate_quality :: "args \<Rightarrow> world \<Rightarrow> args \<times> world" where
  "validate_quality ar w =
     (if args_model ar = ''dall-e-2'' \<and> args_quality ar = ''hd'' then
        (ar\<lparr>args_quality := ''standard''\<rparr>,
         print [quality_warning] w)
      else (ar, w))"

definition validate_size :: "args \<Rightarrow> world \<Rightarrow> args \<times> world" where
  "validate_size ar w =
     (if args_model ar = ''dall-e-2'' \<and> args_size ar \<in> set [''1792x1024'', ''1024x1792''] then
        (ar\<lparr>args_size := ''1024x1024''\<rparr>,
         print [size_warning] w)
      else (ar, w))"

definition validate_params :: "args \<Rightarrow> world \<Rightarrow> args \<times> world" where
  "validate_params ar w =
     (case validate_quality ar w of (ar1, w1) \<Rightarrow> validate_size ar1 w1)"

text \<open>\<open>if result:\<close> on what a provider routine returned: \<open>None\<close> or a path.\<close>

definition truthy_result :: "string option \<Rightarrow> bool" where
  "truthy_result result = (case result of None \<Rightarrow> False | Some path \<Rightarrow> path \<noteq> [])"

definition suggest_openai :: "string \<Rightarrow> line" where
  "suggest_openai prompt =
     Line No_icon (''   python3 generate_image.py '' @ dq prompt @ '' --provider openai'')"

text \<open>Lines 287-328, with the keys loaded.\<close>

definition main_huggingface :: "answers \<Rightarrow> args \<Rightarrow> api_keys \<Rightarrow> world \<Rightarrow> nat \<times> world" where
  "main_huggingface a ar api_keys w =
     (if truthy (huggingface api_keys) then
        (case generate_image_huggingface a (args_prompt ar) (huggingface api_keys)
                (args_hf_model ar) (args_output_dir ar) w of
           (result, w') \<Rightarrow>
             (if truthy_result result then (0, w')
              else if args_provider ar = ''huggingface'' then
                (1, print [Line No_icon [],
                           Line Cross '' Failed to generate via HuggingFace''] w')
              else
                (1, print [Line No_icon [],
                           Line Cross '' HuggingFace generation failed'',
                           Line No_icon [],
                           Line Bulb '' You can try paid OpenAI DALL-E API:'',
                           suggest_openai (args_prompt ar),
                           Line No_icon [],
                           Line Money '' Cost: ~$0.02-0.04 per image (DALL-E 2/3)'',
                           Line Info ''  Requires OPENAI_API_KEY in ~/.cursor/cli-config.json''] w')))
      else if args_provider ar = ''huggingface'' then
        (1, print [Line Cross '' HuggingFace token not found!'',
                   Line No_icon ''Add HF_TOKEN to ~/.cursor/cli-config.json:'',
                   Line No_icon (''{'' @ dq ''env'' @ '': {'' @ dq ''HF_TOKEN'' @ '': ''
                                 @ dq ''your_token'' @ ''}}''),
                   Line No_icon [],
                   Line No_icon ''Get token: https://huggingface.co/settings/tokens''] w)
      else
        (1, print [Line Warning ''  HuggingFace token not found'',
                   Line No_icon [],
                   Line Bulb '' You can try paid OpenAI DALL-E API:'',
                   suggest_openai (args_prompt ar),
                   Line No_icon [],
                   Line Money '' Cost: ~$0.02-0.04 per image'',
                   Line Info ''  Requires OPENAI_API_KEY in ~/.cursor/cli-config.json''] w))"

text \<open>Lines 331-361, with the keys loaded.\<close>

definition main_openai :: "answers \<Rightarrow> args \<Rightarrow> api_keys \<Rightarrow> world \<Rightarrow> nat \<times> world" where
  "main_openai a ar api_keys w =
     (if \<not> truthy (openai api_keys) then
        (1, print [Line No_icon [],
                   Line Cross '' OpenAI API key not found!'',
                   Line No_icon ''Add OPENAI_API_KEY to ~/.cursor/cli-config.json:'',
                   Line No_icon (''{'' @ dq ''env'' @ '': {'' @ dq ''OPENAI_API_KEY'' @ '': ''
                                 @ dq ''sk-your-key'' @ ''}}''),
                   Line No_icon [],
                   Line No_icon ''Get key: https://platform.openai.com/api-keys''] w)
      else
        (case validate_params ar w of
           (ar', w1) \<Rightarrow>
             (case generate_image_openai a (args_prompt ar') (openai api_keys) (args_size ar')
                     (args_quality ar') (args_model ar') (args_output_dir ar') w1 of
                (result, w2) \<Rightarrow>
                  (if truthy_result result then (0, w2)
                   else (1, print [Line No_icon [],
                                   Line Cross '' Failed to generate image''] w2)))))"

text \<open>
  \<open>main\<close> after \<open>parse_args\<close>: the exit status and the world at exit. An exception
  that \<open>load_api_keys\<close> lets through ends the process with a traceback and status 1. The
  first \<open>if\<close> leaves through \<open>sys.exit\<close> on each of its paths, so the second is reached
  only when the first did not apply; falling off the end of \<open>main\<close> is exit status 0.
\<close>

definition main ::
  "answers \<Rightarrow> (string \<rightharpoonup> string) \<Rightarrow> dotenv_file \<Rightarrow> config_file \<Rightarrow> args \<Rightarrow> world
     \<Rightarrow> nat \<times> world" where
  "main a environ dotenv cfg ar w =
     (case load_api_keys environ dotenv cfg of
        Inl e \<Rightarrow> (1, print [Traceback e] w)
      | Inr api_keys \<Rightarrow>
          (if args_provider ar = ''auto'' \<or> args_provider ar = ''huggingface'' then
             main_huggingface a ar api_keys w
           else if args_provider ar = ''openai'' then main_openai a ar api_keys w
           else (0, w)))"

text \<open>The world at the start of a run: the files there are, nothing printed, nothing
  done.\<close>

definition start :: "(string \<rightharpoonup> string) \<Rightarrow> world" where
  "start files = \<lparr>fs = files, out = [], trace = []\<rparr>"

section \<open>Reading a run\<close>

text \<open>The operations of a trace by kind: the POSTs to the free provider, the calls to
  the paid provider (the generation call and the download), the network calls and the
  waits together, the files opened and the files written to the end.\<close>

fun is_hf_post :: "effect \<Rightarrow> bool" where
  "is_hf_post (HF_post rq reply) = True"
| "is_hf_post _ = False"

fun is_generate :: "effect \<Rightarrow> bool" where
  "is_generate (OpenAI_generate key rq reply) = True"
| "is_generate _ = False"

fun is_openai_call :: "effect \<Rightarrow> bool" where
  "is_openai_call (OpenAI_generate key rq reply) = True"
| "is_openai_call (Http_get u reply) = True"
| "is_openai_call _ = False"

fun is_call :: "effect \<Rightarrow> bool" where
  "is_call (Mkdir d ok) = False"
| "is_call (Open_wb p ok) = False"
| "is_call (Write p d ok) = False"
| "is_call _ = True"

fun is_opened :: "effect \<Rightarrow> bool" where
  "is_opened (Open_wb p ok) = ok"
| "is_opened _ = False"

fun is_saved :: "effect \<Rightarrow> bool" where
  "is_saved (Write p d ok) = ok"
| "is_saved _ = False"

text \<open>A provider routine starts by printing its banner, the only lines with this icon.\<close>

fun is_banner :: "line \<Rightarrow> bool" where
  "is_banner (Line Art s) = True"
| "is_banner _ = False"

text \<open>The response the free provider routine judges: the retry's when the first
  response was a 503, the first one otherwise.\<close>

definition final_reply :: "answers \<Rightarrow> http_reply" where
  "final_reply a =
     (case post1 a of
        Raises e \<Rightarrow> post1 a
      | Response r \<Rightarrow> (if status_code r = 503 then post2 a else post1 a))"

text \<open>The network calls and waits the free provider routine makes, read off its
  replies: one POST, and after a 503 one wait of 20 seconds and the same POST again.\<close>

definition hf_calls :: "answers \<Rightarrow> hf_request \<Rightarrow> effect list" where
  "hf_calls a rq =
     (case post1 a of
        Raises e \<Rightarrow> [HF_post rq (post1 a)]
      | Response r \<Rightarrow>
          (if status_code r = 503 then [HF_post rq (post1 a), Sleep 20, HF_post rq (post2 a)]
           else [HF_post rq (post1 a)]))"

text \<open>The provider call fails: the free provider's final reply is no response with
  status 200; the paid provider's generation call raises or returns no URL, or the
  download raises.\<close>

definition hf_failed :: "answers \<Rightarrow> bool" where
  "hf_failed a = (case final_reply a of Raises e \<Rightarrow> True | Response r \<Rightarrow> status_code r \<noteq> 200)"

definition openai_failed :: "answers \<Rightarrow> bool" where
  "openai_failed a =
     (case generate a of
        Generate_raises e \<Rightarrow> True
      | Generate_returns data \<Rightarrow>
          (case data of
             [] \<Rightarrow> True
           | None # rest \<Rightarrow> True
           | Some image_url # rest \<Rightarrow> (case get a of Raises e \<Rightarrow> True | Response r \<Rightarrow> False)))"

text \<open>The first value of a list that counts as true, \<open>None\<close> when there is none; a
  value that counts as false read as \<open>None\<close>.\<close>

fun first_truthy :: "pyval list \<Rightarrow> pyval" where
  "first_truthy [] = PNone"
| "first_truthy (v # vs) = (if truthy v then v else first_truthy vs)"

definition present :: "pyval \<Rightarrow> pyval" where
  "present v = (if truthy v then v else PNone)"

text \<open>
  The credential sources as the specification describes them, for the names a key goes
  by. The environment gives the variable of each name. The \<open>.env\<close> file gives, line by
  line, the value of each \<open>NAME=value\<close> line: what stands after \<open>NAME=\<close> in the line
  without the whitespace around it. The configuration file gives the entry of each name
  in its \<open>env\<close> object. The credential is the first of all these, in this order, that
  is not empty.
\<close>

definition openai_names :: "string list" where
  "openai_names = [''OPENAI_API_KEY'']"

definition huggingface_names :: "string list" where
  "huggingface_names = [''HUGGINGFACE_API_KEY'', ''HF_TOKEN'']"

definition spec_environ_values :: "(string \<rightharpoonup> string) \<Rightarrow> string list \<Rightarrow> pyval list" where
  "spec_environ_values environ names =
     map (\<lambda>n. case environ n of None \<Rightarrow> PNone | Some s \<Rightarrow> PStr s) names"

definition spec_line_values :: "string list \<Rightarrow> string \<Rightarrow> pyval list" where
  "spec_line_values names l =
     (case filter (\<lambda>n. startswith l (n @ ''='')) names of
        [] \<Rightarrow> []
      | n # ns \<Rightarrow> [PStr (drop (length n + 1) (strip l))])"

definition spec_dotenv_values :: "dotenv_file \<Rightarrow> string list \<Rightarrow> pyval list" where
  "spec_dotenv_values dotenv names =
     (case dotenv of
        Dotenv_lines ls \<Rightarrow> concat (map (spec_line_values names) ls)
      | _ \<Rightarrow> [])"

definition spec_config_values :: "config_file \<Rightarrow> string list \<Rightarrow> pyval list" where
  "spec_config_values cfg names =
     (case cfg of
        Config_json (PDict kvs) \<Rightarrow>
          (case map_of kvs ''env'' of
             Some (PDict env) \<Rightarrow>
               map (\<lambda>n. case map_of env n of None \<Rightarrow> PNone | Some v \<Rightarrow> v) names
           | _ \<Rightarrow> [])
      | _ \<Rightarrow> [])"

definition spec_resolve ::
  "(string \<rightharpoonup> string) \<Rightarrow> dotenv_file \<Rightarrow> config_file \<Rightarrow> string list \<Rightarrow> pyval" where
  "spec_resolve environ dotenv cfg names =
     first_truthy (spec_environ_values environ names @ spec_dotenv_values dotenv names
                   @ spec_config_values cfg names)"

text \<open>The states of the configuration file that can be looked at and give no \<open>env\<close>
  object: not readable, not JSON, JSON that is no object, an object without the key
  \<open>env\<close>, an \<open>env\<close> that is no object.\<close>

fun has_no_env :: "config_file \<Rightarrow> bool" where
  "has_no_env Config_no_home = False"
| "has_no_env Config_inaccessible = False"
| "has_no_env Config_absent = False"
| "has_no_env Config_unreadable = True"
| "has_no_env Config_invalid = True"
| "has_no_env (Config_json (PDict kvs)) =
     (case map_of kvs ''env'' of None \<Rightarrow> True | Some (PDict e) \<Rightarrow> False | Some _ \<Rightarrow> True)"
| "has_no_env (Config_json _) = True"







section \<open>Parameter correction\<close>

text \<open>
  Claim C8: the correction of quality and size is idempotent. Applied to a request that
  it has already corrected, in any world, it returns the same request and leaves the
  world as it is (it prints no warning).
\<close>

theorem validate_params_idempotent:
  "fst (validate_params (fst (validate_params ar w)) w') = fst (validate_params ar w)
   \<and> snd (validate_params (fst (validate_params ar w)) w') = w'"
  by (auto simp: validate_params_def validate_quality_def validate_size_def
      split: prod.splits)

section \<open>The world through a run\<close>

lemma trace_print [simp]: "trace (print ls w) = trace w"
  and out_print [simp]: "out (print ls w) = out w @ ls"
  and fs_print [simp]: "fs (print ls w) = fs w"
  by (simp_all add: print_def)

lemma trace_perform [simp]: "trace (perform e w) = trace w @ [e]"
  and out_perform [simp]: "out (perform e w) = out w"
  and fs_perform [simp]: "fs (perform e w) = fs w"
  by (simp_all add: perform_def)

lemma save_image_trace:
  "\<exists>es. trace (snd (save_image a d f x w)) = trace w @ es \<and> list_all (\<lambda>e. \<not> is_call e) es"
  by (simp add: save_image_def Let_def split: sum.splits)

lemma save_image_out [simp]: "out (snd (save_image a d f x w)) = out w"
  by (simp add: save_image_def Let_def split: sum.splits)

lemma not_call_filter:
  assumes "list_all (\<lambda>e. \<not> is_call e) es"
  shows "filter is_generate es = []" and "filter is_hf_post es = []"
    and "filter is_openai_call es = []" and "filter is_call es = []"
proof -
  have g: "\<not> is_call e \<Longrightarrow> \<not> is_generate e \<and> \<not> is_hf_post e \<and> \<not> is_openai_call e" for e
    by (cases e) simp_all
  from assms show "filter is_generate es = []" "filter is_hf_post es = []"
    "filter is_openai_call es = []" "filter is_call es = []"
    using g by (auto simp: list_all_iff filter_empty_conv)
qed

lemma save_image_filter [simp]:
  "filter is_generate (trace (snd (save_image a d f x w))) = filter is_generate (trace w)"
  "filter is_hf_post (trace (snd (save_image a d f x w))) = filter is_hf_post (trace w)"
  "filter is_openai_call (trace (snd (save_image a d f x w))) = filter is_openai_call (trace w)"
  "filter is_call (trace (snd (save_image a d f x w))) = filter is_call (trace w)"
  using save_image_trace [of a d f x w] by (auto simp: not_call_filter)

section \<open>The paid provider's request\<close>

lemma openai_fetch_generate:
  "filter is_generate (trace (snd (openai_fetch a p k s q m w)))
     = filter is_generate (trace w) @ [OpenAI_generate k (request_params p s q m) (generate a)]"
  by (simp add: openai_fetch_def Let_def
      split: openai_reply.splits sum.splits option.splits http_reply.splits)

lemma openai_try_generate:
  "filter is_generate (trace (snd (openai_try a p k s q m d w)))
     = filter is_generate (trace w) @ [OpenAI_generate k (request_params p s q m) (generate a)]"
proof (cases "openai_fetch a p k s q m w")
  case (Pair r w')
  then have "filter is_generate (trace w')
      = filter is_generate (trace w) @ [OpenAI_generate k (request_params p s q m) (generate a)]"
    using openai_fetch_generate [of a p k s q m w] by simp
  with Pair show ?thesis
    by (cases r)
      (auto simp: openai_try_def split: prod.splits sum.splits
        dest: arg_cong [where f = "\<lambda>x. filter is_generate (trace (snd x))"])
qed

lemma generate_image_openai_generate:
  "filter is_generate (trace (snd (generate_image_openai a p k s q m d w)))
     = filter is_generate (trace w) @ [OpenAI_generate k (request_params p s q m) (generate a)]"
proof (cases "openai_try a p k s q m d (print (openai_banner p s q m) w)")
  case (Pair r w')
  then show ?thesis
    using openai_try_generate [of a p k s q m d "print (openai_banner p s q m) w"]
    by (cases r) (simp_all add: generate_image_openai_def)
qed

text \<open>
  Claim C9: the paid provider routine makes one generation call, and the \<open>quality\<close>
  key is among its parameters if and only if the model is \<open>dall-e-3\<close>, with the value
  the routine was given. For \<open>dall-e-2\<close> the key is missing whatever the quality was.
\<close>

theorem quality_only_for_dall_e_3:
  "filter is_generate
       (trace (snd (generate_image_openai a prompt api_key size' quality' model' output_dir w)))
     = filter is_generate (trace w)
       @ [OpenAI_generate api_key (request_params prompt size' quality' model') (generate a)]
   \<and> rq_quality (request_params prompt size' quality' model')
       = (if model' = ''dall-e-3'' then Some quality' else None)
   \<and> (rq_quality (request_params prompt size' quality' model') \<noteq> None) = (model' = ''dall-e-3'')
   \<and> rq_quality (request_params prompt size' quality' ''dall-e-2'') = None"
  using generate_image_openai_generate [of a prompt api_key size' quality' model' output_dir w]
  by (simp add: request_params_def)

section \<open>What a provider routine does\<close>

lemma save_image_run:
  assumes "save_image a d f x w = (res, w')"
  shows "\<exists>es. trace w' = trace w @ es \<and> out w' = out w \<and> list_all (\<lambda>e. \<not> is_call e) es
     \<and> (case res of
           Inr path \<Rightarrow> list_ex is_saved es \<and> fs w' path = Some x
             \<and> (\<exists>dir. expanduser a d = Inr dir \<and> path = dir @ ''/'' @ f)
         | Inl e \<Rightarrow> \<not> list_ex is_saved es \<and> (\<not> list_ex is_opened es \<longrightarrow> fs w' = fs w))"
  using assms
  by (auto simp: save_image_def Let_def split: sum.splits if_splits)

lemma hf_finish_run:
  assumes "hf_finish a p d r w = (res, w')"
  shows "\<exists>es ls. trace w' = trace w @ es \<and> out w' = out w @ ls
     \<and> list_all (\<lambda>e. \<not> is_call e) es \<and> list_all (\<lambda>l. \<not> is_banner l) ls
     \<and> (case res of
           Inr (Some path) \<Rightarrow> status_code r = 200 \<and> list_ex is_saved es
             \<and> fs w' path = Some (content r)
             \<and> (\<exists>dir. expanduser a d = Inr dir \<and> path = dir @ ''/'' @ hf_filename (now a) p)
         | _ \<Rightarrow> \<not> list_ex is_saved es \<and> (\<not> list_ex is_opened es \<longrightarrow> fs w' = fs w))
     \<and> (status_code r \<noteq> 200 \<longrightarrow> es = [] \<and> fs w' = fs w \<and> (res = Inr None \<or> isl res)
          \<and> (\<forall>kvs. json r = Inr (PDict kvs) \<longrightarrow>
                ls = [Line_val Cross '' HuggingFace API error: ''
                       (case map_of kvs ''error'' of None \<Rightarrow> PStr ''Unknown error'' | Some v \<Rightarrow> v)]))"
proof (cases "status_code r = 200")
  case False
  with assms show ?thesis
    by (cases "json r"; cases "projr (json r)")
      (auto simp: hf_finish_def split: sum.splits)
next
  case True
  obtain sres sw where s: "save_image a d (hf_filename (now a) p) (content r) w = (sres, sw)"
    by (cases "save_image a d (hf_filename (now a) p) (content r) w")
  from save_image_run [OF s] obtain es where es: "trace sw = trace w @ es" "out sw = out w"
    "list_all (\<lambda>e. \<not> is_call e) es"
    "case sres of
           Inr path \<Rightarrow> list_ex is_saved es \<and> fs sw path = Some (content r)
             \<and> (\<exists>dir. expanduser a d = Inr dir \<and> path = dir @ ''/'' @ hf_filename (now a) p)
         | Inl e \<Rightarrow> \<not> list_ex is_saved es \<and> (\<not> list_ex is_opened es \<longrightarrow> fs sw = fs w)"
    by blast
  show ?thesis
  proof (cases sres)
    case (Inl e)
    with assms True s have "res = Inl e" "w' = sw" by (simp_all add: hf_finish_def)
    with es Inl True show ?thesis by auto
  next
    case (Inr path)
    with assms True s have "res = Inr (Some path)"
      "w' = print [Line Check ('' Successfully saved: '' @ path),
                     Line Money '' Cost: $0.00 (free)''] sw" by (simp_all add: hf_finish_def)
    with es Inr True show ?thesis by auto
  qed
qed

lemma not_call_filters:
  "list_all (\<lambda>e. \<not> is_call e) es \<Longrightarrow>
   filter is_call es = [] \<and> filter is_hf_post es = [] \<and> filter is_openai_call es = []
   \<and> filter is_generate es = []"
  using not_call_filter [of es] by simp

lemma hf_try_run:
  assumes "hf_try a p t m d w = (res, w')"
  shows "\<exists>es ls. trace w' = trace w @ es \<and> out w' = out w @ ls
     \<and> filter is_call es = hf_calls a (hf_request_of p t m)
     \<and> filter is_openai_call es = []
     \<and> list_all (\<lambda>l. \<not> is_banner l) ls
     \<and> (case res of
           Inr (Some path) \<Rightarrow>
             (\<exists>r. final_reply a = Response r \<and> status_code r = 200
                 \<and> fs w' path = Some (content r))
             \<and> list_ex is_saved es
             \<and> (\<exists>dir. expanduser a d = Inr dir \<and> path = dir @ ''/'' @ hf_filename (now a) p)
         | _ \<Rightarrow> \<not> list_ex is_saved es \<and> (\<not> list_ex is_opened es \<longrightarrow> fs w' = fs w))
     \<and> ((\<forall>r. final_reply a = Response r \<longrightarrow> status_code r \<noteq> 200) \<longrightarrow>
          list_all is_call es \<and> fs w' = fs w \<and> (res = Inr None \<or> isl res))
     \<and> (\<forall>r kvs. final_reply a = Response r \<and> status_code r \<noteq> 200
            \<and> json r = Inr (PDict kvs) \<longrightarrow>
                res = Inr None \<and>
                last (out w') = Line_val Cross '' HuggingFace API error: ''
                       (case map_of kvs ''error'' of None \<Rightarrow> PStr ''Unknown error'' | Some v \<Rightarrow> v))"
proof -
  let ?rq = "hf_request_of p t m"
  let ?w1 = "perform (HF_post ?rq (post1 a)) w"
  show ?thesis
  proof (cases "post1 a")
    case (Raises e)
    with assms have "res = Inl e" "w' = ?w1" by (simp_all add: hf_try_def Let_def)
    with Raises show ?thesis by (simp add: hf_calls_def final_reply_def)
  next
    case (Response r)
    show ?thesis
    proof (cases "status_code r = 503")
      case False
      with assms Response have f: "hf_finish a p d r ?w1 = (res, w')"
        by (simp add: hf_try_def Let_def)
      from False Response have fr: "final_reply a = Response r" by (simp add: final_reply_def)
      from False Response have hc: "hf_calls a ?rq = [HF_post ?rq (post1 a)]"
        by (simp add: hf_calls_def)
      from hf_finish_run [OF f] obtain es ls where
        r: "trace w' = trace ?w1 @ es" "out w' = out ?w1 @ ls"
          "list_all (\<lambda>e. \<not> is_call e) es" "list_all (\<lambda>l. \<not> is_banner l) ls"
          "case res of
           Inr (Some path) \<Rightarrow> status_code r = 200 \<and> list_ex is_saved es
             \<and> fs w' path = Some (content r)
             \<and> (\<exists>dir. expanduser a d = Inr dir \<and> path = dir @ ''/'' @ hf_filename (now a) p)
         | _ \<Rightarrow> \<not> list_ex is_saved es \<and> (\<not> list_ex is_opened es \<longrightarrow> fs w' = fs ?w1)"
          "status_code r \<noteq> 200 \<longrightarrow> es = [] \<and> fs w' = fs ?w1 \<and> (res = Inr None \<or> isl res)
          \<and> (\<forall>kvs. json r = Inr (PDict kvs) \<longrightarrow>
                ls = [Line_val Cross '' HuggingFace API error: ''
                       (case map_of kvs ''error'' of None \<Rightarrow> PStr ''Unknown error'' | Some v \<Rightarrow> v)])"
        by blast
      have c: "res = Inr None" if "status_code r \<noteq> 200" "json r = Inr (PDict kvs)" for kvs
        using f that by (simp add: hf_finish_def)
      let ?es = "HF_post ?rq (post1 a) # es"
      have "trace w' = trace w @ ?es" using r(1) by simp
      moreover have "out w' = out w @ ls" using r(2) by simp
      moreover have "filter is_call ?es = hf_calls a ?rq" "filter is_openai_call ?es = []"
        using not_call_filters [OF r(3)] hc by simp_all
      moreover note r(4)
      moreover have "case res of
           Inr (Some path) \<Rightarrow>
             (\<exists>r. final_reply a = Response r \<and> status_code r = 200
                 \<and> fs w' path = Some (content r))
             \<and> list_ex is_saved ?es
             \<and> (\<exists>dir. expanduser a d = Inr dir \<and> path = dir @ ''/'' @ hf_filename (now a) p)
         | _ \<Rightarrow> \<not> list_ex is_saved ?es \<and> (\<not> list_ex is_opened ?es \<longrightarrow> fs w' = fs w)"
        using r(5) fr by (auto split: sum.splits option.splits)
      moreover have "(\<forall>r. final_reply a = Response r \<longrightarrow> status_code r \<noteq> 200) \<longrightarrow>
          list_all is_call ?es \<and> fs w' = fs w \<and> (res = Inr None \<or> isl res)"
        using r(6) fr by auto
      moreover have "\<forall>r kvs. final_reply a = Response r \<and> status_code r \<noteq> 200
            \<and> json r = Inr (PDict kvs) \<longrightarrow>
                res = Inr None \<and>
                last (out w') = Line_val Cross '' HuggingFace API error: ''
                       (case map_of kvs ''error'' of None \<Rightarrow> PStr ''Unknown error'' | Some v \<Rightarrow> v)"
        using r(6) r(2) fr c by auto
      ultimately show ?thesis by blast
    next
      case True
      let ?w4 = "perform (HF_post ?rq (post2 a)) (perform (Sleep 20) (print [Line Hourglass
         '' Model is loading on HuggingFace servers, this may take ~20 seconds...''] ?w1))"
      from True Response have fr: "final_reply a = post2 a" by (simp add: final_reply_def)
      from True Response have hc: "hf_calls a ?rq
          = [HF_post ?rq (post1 a), Sleep 20, HF_post ?rq (post2 a)]"
        by (simp add: hf_calls_def)
      show ?thesis
      proof (cases "post2 a")
        case (Raises e)
        with assms True Response have "res = Inl e" "w' = ?w4"
          by (simp_all add: hf_try_def Let_def)
        with Raises hc fr show ?thesis by simp
      next
        case r2: (Response r')
        with assms True Response have f: "hf_finish a p d r' ?w4 = (res, w')"
          by (simp add: hf_try_def Let_def)
        from hf_finish_run [OF f] obtain es ls where
          r: "trace w' = trace ?w4 @ es" "out w' = out ?w4 @ ls"
            "list_all (\<lambda>e. \<not> is_call e) es" "list_all (\<lambda>l. \<not> is_banner l) ls"
            "case res of
             Inr (Some path) \<Rightarrow> status_code r' = 200 \<and> list_ex is_saved es
               \<and> fs w' path = Some (content r')
               \<and> (\<exists>dir. expanduser a d = Inr dir \<and> path = dir @ ''/'' @ hf_filename (now a) p)
           | _ \<Rightarrow> \<not> list_ex is_saved es \<and> (\<not> list_ex is_opened es \<longrightarrow> fs w' = fs ?w4)"
            "status_code r' \<noteq> 200 \<longrightarrow> es = [] \<and> fs w' = fs ?w4 \<and> (res = Inr None \<or> isl res)
            \<and> (\<forall>kvs. json r' = Inr (PDict kvs) \<longrightarrow>
                  ls = [Line_val Cross '' HuggingFace API error: ''
                         (case map_of kvs ''error'' of None \<Rightarrow> PStr ''Unknown error'' | Some v \<Rightarrow> v)])"
          by blast
        have c: "res = Inr None" if "status_code r' \<noteq> 200" "json r' = Inr (PDict kvs)" for kvs
          using f that by (simp add: hf_finish_def)
        let ?es = "HF_post ?rq (post1 a) # Sleep 20 # HF_post ?rq (post2 a) # es"
        let ?ls = "Line Hourglass
           '' Model is loading on HuggingFace servers, this may take ~20 seconds...'' # ls"
        have "trace w' = trace w @ ?es" using r(1) by simp
        moreover have "out w' = out w @ ?ls" using r(2) by simp
        moreover have "filter is_call ?es = hf_calls a ?rq" "filter is_openai_call ?es = []"
          using not_call_filters [OF r(3)] hc by simp_all
        moreover have "list_all (\<lambda>l. \<not> is_banner l) ?ls" using r(4) by simp
        moreover have "case res of
             Inr (Some path) \<Rightarrow>
               (\<exists>r. final_reply a = Response r \<and> status_code r = 200
                   \<and> fs w' path = Some (content r))
               \<and> list_ex is_saved ?es
               \<and> (\<exists>dir. expanduser a d = Inr dir \<and> path = dir @ ''/'' @ hf_filename (now a) p)
           | _ \<Rightarrow> \<not> list_ex is_saved ?es \<and> (\<not> list_ex is_opened ?es \<longrightarrow> fs w' = fs w)"
          using r(5) fr r2 by (auto split: sum.splits option.splits)
        moreover have "(\<forall>r. final_reply a = Response r \<longrightarrow> status_code r \<noteq> 200) \<longrightarrow>
            list_all is_call ?es \<and> fs w' = fs w \<and> (res = Inr None \<or> isl res)"
          using r(6) fr r2 by auto
        moreover have "\<forall>r kvs. final_reply a = Response r \<and> status_code r \<noteq> 200
              \<and> json r = Inr (PDict kvs) \<longrightarrow>
                  res = Inr None \<and>
                  last (out w') = Line_val Cross '' HuggingFace API error: ''
                         (case map_of kvs ''error'' of None \<Rightarrow> PStr ''Unknown error'' | Some v \<Rightarrow> v)"
          using r(6) r(2) fr r2 c by auto
        ultimately show ?thesis by blast
      qed
    qed
  qed
qed

lemma generate_image_huggingface_run:
  assumes "generate_image_huggingface a p t m d w = (res, w')"
  shows "\<exists>es ls. trace w' = trace w @ es \<and> out w' = out w @ ls
     \<and> filter is_call es = hf_calls a (hf_request_of p t m)
     \<and> filter is_openai_call es = []
     \<and> filter is_banner ls = [Line Art '' Generating image via Hugging Face...'']
     \<and> (case res of
           Some path \<Rightarrow>
             (\<exists>r. final_reply a = Response r \<and> status_code r = 200
                 \<and> fs w' path = Some (content r))
             \<and> list_ex is_saved es
             \<and> (\<exists>dir. expanduser a d = Inr dir \<and> path = dir @ ''/'' @ hf_filename (now a) p)
         | None \<Rightarrow> \<not> list_ex is_saved es \<and> (\<not> list_ex is_opened es \<longrightarrow> fs w' = fs w))
     \<and> ((\<forall>r. final_reply a = Response r \<longrightarrow> status_code r \<noteq> 200) \<longrightarrow>
          list_all is_call es \<and> fs w' = fs w \<and> res = None)
     \<and> (\<forall>r kvs. final_reply a = Response r \<and> status_code r \<noteq> 200
            \<and> json r = Inr (PDict kvs) \<longrightarrow>
                last (out w') = Line_val Cross '' HuggingFace API error: ''
                       (case map_of kvs ''error'' of None \<Rightarrow> PStr ''Unknown error'' | Some v \<Rightarrow> v))"
proof -
  let ?banner = "[Line Art '' Generating image via Hugging Face...'',
                      Line Memo ('' Prompt: '' @ p),
                      Line Robot ('' Model: '' @ m),
                      Line Money '' Cost: FREE!'',
                      Line No_icon []]"
  let ?w0 = "print ?banner w"
  obtain tres tw where t: "hf_try a p t m d ?w0 = (tres, tw)"
    by (cases "hf_try a p t m d ?w0")
  from hf_try_run [OF t] obtain es ls where
    r: "trace tw = trace ?w0 @ es" "out tw = out ?w0 @ ls"
      "filter is_call es = hf_calls a (hf_request_of p t m)"
      "filter is_openai_call es = []"
      "list_all (\<lambda>l. \<not> is_banner l) ls"
      "case tres of
           Inr (Some path) \<Rightarrow>
             (\<exists>r. final_reply a = Response r \<and> status_code r = 200
                 \<and> fs tw path = Some (content r))
             \<and> list_ex is_saved es
             \<and> (\<exists>dir. expanduser a d = Inr dir \<and> path = dir @ ''/'' @ hf_filename (now a) p)
         | _ \<Rightarrow> \<not> list_ex is_saved es \<and> (\<not> list_ex is_opened es \<longrightarrow> fs tw = fs ?w0)"
      "(\<forall>r. final_reply a = Response r \<longrightarrow> status_code r \<noteq> 200) \<longrightarrow>
          list_all is_call es \<and> fs tw = fs ?w0 \<and> (tres = Inr None \<or> isl tres)"
      "\<forall>r kvs. final_reply a = Response r \<and> status_code r \<noteq> 200
            \<and> json r = Inr (PDict kvs) \<longrightarrow>
                tres = Inr None \<and>
                last (out tw) = Line_val Cross '' HuggingFace API error: ''
                       (case map_of kvs ''error'' of None \<Rightarrow> PStr ''Unknown error'' | Some v \<Rightarrow> v)"
    by blast
  have nb: "filter is_banner ls = []" using r(5) by (simp add: list_all_iff filter_empty_conv)
  define ls' where "ls' = ?banner @ ls
      @ (case tres of Inl e \<Rightarrow> [Line_exn Cross '' Error generating via HuggingFace: '' e]
         | Inr v \<Rightarrow> [])"
  have res: "res = (case tres of Inl e \<Rightarrow> None | Inr v \<Rightarrow> v)"
    and w': "w' = (case tres of
        Inl e \<Rightarrow> print [Line_exn Cross '' Error generating via HuggingFace: '' e] tw
      | Inr v \<Rightarrow> tw)"
    using assms t by (auto simp: generate_image_huggingface_def split: sum.splits)
  have fs: "fs w' = fs tw" and tr: "trace w' = trace tw" using w' by (auto split: sum.splits)
  have 1: "trace w' = trace w @ es" using r(1) tr by simp
  have 2: "out w' = out w @ ls'" using r(2) w' by (auto simp: ls'_def split: sum.splits)
  have 3: "filter is_banner ls' = [Line Art '' Generating image via Hugging Face...'']"
    using nb by (auto simp: ls'_def split: sum.splits)
  have 4: "case res of
           Some path \<Rightarrow>
             (\<exists>r. final_reply a = Response r \<and> status_code r = 200
                 \<and> fs w' path = Some (content r))
             \<and> list_ex is_saved es
             \<and> (\<exists>dir. expanduser a d = Inr dir \<and> path = dir @ ''/'' @ hf_filename (now a) p)
         | None \<Rightarrow> \<not> list_ex is_saved es \<and> (\<not> list_ex is_opened es \<longrightarrow> fs w' = fs w)"
    using r(6) res fs by (auto split: sum.splits option.splits)
  have 5: "(\<forall>r. final_reply a = Response r \<longrightarrow> status_code r \<noteq> 200) \<longrightarrow>
          list_all is_call es \<and> fs w' = fs w \<and> res = None"
    using r(7) res fs by (auto split: sum.splits)
  have 6: "\<forall>r kvs. final_reply a = Response r \<and> status_code r \<noteq> 200
            \<and> json r = Inr (PDict kvs) \<longrightarrow>
                last (out w') = Line_val Cross '' HuggingFace API error: ''
                       (case map_of kvs ''error'' of None \<Rightarrow> PStr ''Unknown error'' | Some v \<Rightarrow> v)"
  proof (intro allI impI)
    fix r kvs
    assume h: "final_reply a = Response r \<and> status_code r \<noteq> 200 \<and> json r = Inr (PDict kvs)"
    with r(8) have "tres = Inr None" and l: "last (out tw) = Line_val Cross '' HuggingFace API error: ''
                       (case map_of kvs ''error'' of None \<Rightarrow> PStr ''Unknown error'' | Some v \<Rightarrow> v)"
      by blast+
    then have "w' = tw" using w' by simp
    with l show "last (out w') = Line_val Cross '' HuggingFace API error: ''
                       (case map_of kvs ''error'' of None \<Rightarrow> PStr ''Unknown error'' | Some v \<Rightarrow> v)"
      by simp
  qed
  from 1 2 3 4 5 6 r(3,4) show ?thesis by blast
qed

lemma openai_fetch_run:
  assumes "openai_fetch a p k s q m w = (res, w')"
  shows "\<exists>es. trace w' = trace w @ es \<and> out w' = out w \<and> fs w' = fs w
     \<and> filter is_hf_post es = []
     \<and> filter is_generate es = [OpenAI_generate k (request_params p s q m) (generate a)]
     \<and> \<not> list_ex is_saved es \<and> \<not> list_ex is_opened es
     \<and> (\<forall>u x. res = Inr (u, x) \<longrightarrow> (\<exists>r. get a = Response r \<and> x = content r))"
  using assms
  by (auto simp: openai_fetch_def Let_def
      split: openai_reply.splits sum.splits option.splits http_reply.splits)

lemma openai_try_run:
  assumes "openai_try a p k s q m d w = (res, w')"
  shows "\<exists>es ls. trace w' = trace w @ es \<and> out w' = out w @ ls
     \<and> filter is_hf_post es = []
     \<and> filter is_generate es = [OpenAI_generate k (request_params p s q m) (generate a)]
     \<and> list_all (\<lambda>l. \<not> is_banner l) ls
     \<and> (case res of
           Inr path \<Rightarrow>
             (\<exists>r. get a = Response r \<and> fs w' path = Some (content r))
             \<and> list_ex is_saved es
             \<and> (\<exists>dir. expanduser a d = Inr dir
                   \<and> path = dir @ ''/'' @ openai_filename (now a) p)
         | Inl e \<Rightarrow> \<not> list_ex is_saved es \<and> (\<not> list_ex is_opened es \<longrightarrow> fs w' = fs w))"
proof -
  obtain fres fw where f: "openai_fetch a p k s q m w = (fres, fw)"
    by (cases "openai_fetch a p k s q m w")
  from openai_fetch_run [OF f] obtain es where
    r: "trace fw = trace w @ es" "out fw = out w" "fs fw = fs w"
      "filter is_hf_post es = []"
      "filter is_generate es = [OpenAI_generate k (request_params p s q m) (generate a)]"
      "\<not> list_ex is_saved es" "\<not> list_ex is_opened es"
      "\<forall>u x. fres = Inr (u, x) \<longrightarrow> (\<exists>r. get a = Response r \<and> x = content r)"
    by blast
  show ?thesis
  proof (cases fres)
    case (Inl e)
    with assms f have "res = Inl e" "w' = fw" by (simp_all add: openai_try_def)
    with r show ?thesis by (intro exI [of _ es] exI [of _ "[]"]) simp
  next
    case (Inr ux)
    obtain u x where ux: "ux = (u, x)" by (cases ux)
    from r(8) Inr ux obtain rr where rr: "get a = Response rr" "x = content rr" by blast
    obtain sres sw where sv: "save_image a d (openai_filename (now a) p) x fw = (sres, sw)"
      by (cases "save_image a d (openai_filename (now a) p) x fw")
    from save_image_run [OF sv] obtain es' where
      s: "trace sw = trace fw @ es'" "out sw = out fw" "list_all (\<lambda>e. \<not> is_call e) es'"
        "case sres of
           Inr path \<Rightarrow> list_ex is_saved es' \<and> fs sw path = Some x
             \<and> (\<exists>dir. expanduser a d = Inr dir \<and> path = dir @ ''/'' @ openai_filename (now a) p)
         | Inl e \<Rightarrow> \<not> list_ex is_saved es' \<and> (\<not> list_ex is_opened es' \<longrightarrow> fs sw = fs fw)"
      by blast
    note nc = not_call_filters [OF s(3)]
    show ?thesis
    proof (cases sres)
      case (Inl e)
      with assms f Inr ux sv have "res = Inl e" "w' = sw" by (simp_all add: openai_try_def)
      with r s Inl nc show ?thesis
        by (intro exI [of _ "es @ es'"] exI [of _ "[]"]) simp
    next
      case path: (Inr path)
      let ?ls = "[Line Check ('' Successfully saved: '' @ path),
                       Line Link ('' Original URL: '' @ u),
                       Line Money ('' Request cost: $''
                         @ format_cost (cost_thousandths m q s))]"
      from assms f Inr ux sv path have "res = Inr path" "w' = print ?ls sw"
        by (simp_all add: openai_try_def)
      with r s path nc rr show ?thesis
        by (intro exI [of _ "es @ es'"] exI [of _ ?ls]) simp
    qed
  qed
qed

lemma generate_image_openai_run:
  assumes "generate_image_openai a p k s q m d w = (res, w')"
  shows "\<exists>es ls. trace w' = trace w @ es \<and> out w' = out w @ openai_banner p s q m @ ls
     \<and> filter is_hf_post es = []
     \<and> filter is_generate es = [OpenAI_generate k (request_params p s q m) (generate a)]
     \<and> list_all (\<lambda>l. \<not> is_banner l) ls
     \<and> (case res of
           Some path \<Rightarrow>
             (\<exists>r. get a = Response r \<and> fs w' path = Some (content r))
             \<and> list_ex is_saved es
             \<and> (\<exists>dir. expanduser a d = Inr dir
                   \<and> path = dir @ ''/'' @ openai_filename (now a) p)
         | None \<Rightarrow> \<not> list_ex is_saved es \<and> (\<not> list_ex is_opened es \<longrightarrow> fs w' = fs w))"
proof -
  let ?w0 = "print (openai_banner p s q m) w"
  obtain tres tw where t: "openai_try a p k s q m d ?w0 = (tres, tw)"
    by (cases "openai_try a p k s q m d ?w0")
  from openai_try_run [OF t] obtain es ls where
    r: "trace tw = trace ?w0 @ es" "out tw = out ?w0 @ ls"
      "filter is_hf_post es = []"
      "filter is_generate es = [OpenAI_generate k (request_params p s q m) (generate a)]"
      "list_all (\<lambda>l. \<not> is_banner l) ls"
      "case tres of
           Inr path \<Rightarrow>
             (\<exists>r. get a = Response r \<and> fs tw path = Some (content r))
             \<and> list_ex is_saved es
             \<and> (\<exists>dir. expanduser a d = Inr dir
                   \<and> path = dir @ ''/'' @ openai_filename (now a) p)
         | Inl e \<Rightarrow> \<not> list_ex is_saved es \<and> (\<not> list_ex is_opened es \<longrightarrow> fs tw = fs ?w0)"
    by blast
  show ?thesis
  proof (cases tres)
    case (Inl e)
    let ?ls = "ls @ [Line_exn Cross '' Error generating via OpenAI: '' e,
                           Line No_icon [],
                           Line No_icon ''Error details:'',
                           Traceback e]"
    from assms t Inl have "res = None" "w' = print [Line_exn Cross '' Error generating via OpenAI: '' e,
                           Line No_icon [],
                           Line No_icon ''Error details:'',
                           Traceback e] tw"
      by (simp_all add: generate_image_openai_def)
    with r Inl show ?thesis
      by (intro exI [of _ es] exI [of _ ?ls]) simp
  next
    case (Inr path)
    with assms t have "res = Some path" "w' = tw"
      by (simp_all add: generate_image_openai_def)
    with r Inr show ?thesis
      by (intro exI [of _ es] exI [of _ ls]) simp
  qed
qed

section \<open>Credentials: the sources and their order\<close>

lemma in_set_dropWhile: "x \<in> set xs \<Longrightarrow> \<not> P x \<Longrightarrow> x \<in> set (dropWhile P xs)"
  by (induction xs) auto

lemma eq_in_strip: "CHR ''='' \<in> set s \<Longrightarrow> CHR ''='' \<in> set (strip s)"
proof -
  assume a: "CHR ''='' \<in> set s"
  have n: "\<not> isspace CHR ''=''" by (simp add: isspace_def)
  from a n have "CHR ''='' \<in> set (rev (dropWhile isspace s))"
    by (simp add: in_set_dropWhile)
  then have "CHR ''='' \<in> set (dropWhile isspace (rev (dropWhile isspace s)))"
    using n by (rule in_set_dropWhile)
  then show ?thesis by (simp add: strip_def)
qed

lemma startswith_set: "startswith s p \<Longrightarrow> x \<in> set p \<Longrightarrow> x \<in> set s"
  unfolding startswith_def by (metis in_set_takeD)

lemma index_split1: "CHR ''='' \<in> set s \<Longrightarrow> \<exists>v. index (split1 CHR ''='' s) 1 = Inr v"
  by (simp add: index_def split1_def)

lemma key_line_value:
  assumes "startswith line p" and "CHR ''='' \<in> set p"
  shows "\<exists>v. index (split1 CHR ''='' (strip line)) 1 = Inr v"
proof -
  from assms have "CHR ''='' \<in> set line" by (rule startswith_set)
  then show ?thesis by (intro index_split1 eq_in_strip)
qed

lemma dotenv_line_returns: "\<exists>keys'. dotenv_line keys line = Inr keys'"
proof -
  have o: "startswith line ''OPENAI_API_KEY='' \<Longrightarrow> \<exists>v. index (split1 CHR ''='' (strip line)) 1 = Inr v"
    using key_line_value [of line "''OPENAI_API_KEY=''"] by simp
  have h: "startswith line ''HUGGINGFACE_API_KEY='' \<Longrightarrow> \<exists>v. index (split1 CHR ''='' (strip line)) 1 = Inr v"
    using key_line_value [of line "''HUGGINGFACE_API_KEY=''"] by simp
  have t: "startswith line ''HF_TOKEN='' \<Longrightarrow> \<exists>v. index (split1 CHR ''='' (strip line)) 1 = Inr v"
    using key_line_value [of line "''HF_TOKEN=''"] by simp
  show ?thesis
    unfolding dotenv_line_def using o h t by (auto split: sum.splits)
qed

lemma dotenv_loop_returns: "\<exists>keys'. dotenv_loop keys ls = Inr keys'"
proof (induction ls arbitrary: keys)
  case Nil
  show ?case by simp
next
  case (Cons l ls)
  obtain k where "dotenv_line keys l = Inr k" using dotenv_line_returns by blast
  with Cons.IH [of k] show ?case by simp
qed


lemma strip_after_prefix:
  assumes "p \<noteq> []" and "\<not> isspace (hd p)" and "\<not> isspace (last p)"
  shows "strip (p @ r) = p @ rev (dropWhile isspace (rev r))"
proof -
  from assms(1,2) have 1: "dropWhile isspace (p @ r) = p @ r"
    by (cases p) simp_all
  from assms(1,3) have 2: "dropWhile isspace (rev p) = rev p"
    by (cases "rev p") (simp_all add: last_rev [symmetric] del: last_rev)
  have "dropWhile isspace (rev r @ rev p) = dropWhile isspace (rev r) @ rev p"
  proof (cases "\<forall>x\<in>set (rev r). isspace x")
    case True
    then have "dropWhile isspace (rev r) = []" by simp
    moreover from True have "dropWhile isspace (rev r @ rev p) = dropWhile isspace (rev p)"
      by (intro dropWhile_append2) auto
    ultimately show ?thesis using 2 by simp
  next
    case False
    then obtain x where "x \<in> set (rev r)" "\<not> isspace x" by blast
    then show ?thesis by (rule dropWhile_append1)
  qed
  with 1 show ?thesis by (simp add: strip_def)
qed

lemma startswith_append: "startswith l p \<Longrightarrow> l = p @ drop (length p) l"
  unfolding startswith_def by (metis append_take_drop_id)

lemma key_line_split:
  assumes s: "startswith l (n @ ''='')" and e: "CHR ''='' \<notin> set n"
    and h: "\<not> isspace (hd (n @ ''=''))"
  shows "index (split1 CHR ''='' (strip l)) 1 = Inr (drop (length n + 1) (strip l))"
proof -
  define r where "r = rev (dropWhile isspace (rev (drop (length (n @ ''='')) l)))"
  have "l = (n @ ''='') @ drop (length (n @ ''='')) l"
    using s by (rule startswith_append)
  then have "strip l = strip ((n @ ''='') @ drop (length (n @ ''='')) l)" by simp
  also have "\<dots> = (n @ ''='') @ r"
    unfolding r_def using h by (intro strip_after_prefix) (simp_all add: isspace_def)
  finally have st: "strip l = n @ CHR ''='' # r" by simp
  have t: "takeWhile (\<lambda>c. c \<noteq> CHR ''='') (n @ CHR ''='' # r) = n"
    using e by (induction n) auto
  have d: "dropWhile (\<lambda>c. c \<noteq> CHR ''='') (n @ CHR ''='' # r) = CHR ''='' # r"
    using e by (induction n) auto
  show ?thesis unfolding st by (simp add: index_def split1_def t d)
qed

lemma startswith_hd:
  "startswith l p \<Longrightarrow> startswith l q \<Longrightarrow> p \<noteq> [] \<Longrightarrow> q \<noteq> [] \<Longrightarrow> hd p = hd q"
  unfolding startswith_def by (cases l; cases p; cases q) auto

lemma openai_line_split:
  assumes "startswith l ''OPENAI_API_KEY=''"
  shows "index (split1 CHR ''='' (strip l)) 1
     = Inr (drop (length ''OPENAI_API_KEY'' + 1) (strip l))"
  using assms by (intro key_line_split) (simp_all add: isspace_def)

lemma huggingface_line_split:
  assumes "startswith l ''HUGGINGFACE_API_KEY=''"
  shows "index (split1 CHR ''='' (strip l)) 1
     = Inr (drop (length ''HUGGINGFACE_API_KEY'' + 1) (strip l))"
  using assms by (intro key_line_split) (simp_all add: isspace_def)

lemma hf_token_line_split:
  assumes "startswith l ''HF_TOKEN=''"
  shows "index (split1 CHR ''='' (strip l)) 1
     = Inr (drop (length ''HF_TOKEN'' + 1) (strip l))"
  using assms by (intro key_line_split) (simp_all add: isspace_def)

lemma openai_line_not_huggingface:
  assumes "startswith l ''OPENAI_API_KEY=''"
  shows "\<not> startswith l ''HUGGINGFACE_API_KEY=''" and "\<not> startswith l ''HF_TOKEN=''"
  using startswith_hd [OF assms, of "''HUGGINGFACE_API_KEY=''"]
    startswith_hd [OF assms, of "''HF_TOKEN=''"] by auto

lemma first_truthy_single: "first_truthy [v] = present v"
  by (simp add: present_def)

lemma first_truthy_present: "first_truthy (v # vs) = first_truthy (present v # vs)"
  by (simp add: present_def)

lemma first_truthy_append:
  "first_truthy (xs @ ys) = (if truthy (first_truthy xs) then first_truthy xs else first_truthy ys)"
  by (induction xs) simp_all

lemma first_truthy_falsy: "\<not> truthy (first_truthy xs) \<Longrightarrow> first_truthy xs = PNone"
  by (induction xs) (simp_all split: if_splits)

lemma first_truthy_step:
  assumes "present b = first_truthy xs"
  shows "first_truthy (b # ys) = first_truthy (xs @ ys)"
proof (cases "truthy b")
  case True
  with assms have "first_truthy xs = b" by (simp add: present_def)
  with True show ?thesis by (simp add: first_truthy_append)
next
  case False
  with assms have "first_truthy xs = PNone" by (simp add: present_def)
  with False show ?thesis by (simp add: first_truthy_append)
qed

lemma dotenv_line_openai:
  assumes "dotenv_line k l = Inr k'"
  shows "present (openai k') = first_truthy (openai k # spec_line_values openai_names l)"
proof (cases "startswith l ''OPENAI_API_KEY=''")
  case True
  with assms openai_line_split [OF True] show ?thesis
    by (auto simp: dotenv_line_def spec_line_values_def openai_names_def present_def
        split: if_splits)
next
  case False
  with assms have "openai k' = openai k"
    by (auto simp: dotenv_line_def split: if_splits sum.splits)
  with False show ?thesis
    by (simp add: spec_line_values_def openai_names_def present_def)
qed

lemma dotenv_line_huggingface:
  assumes "dotenv_line k l = Inr k'"
  shows "present (huggingface k')
     = first_truthy (huggingface k # spec_line_values huggingface_names l)"
proof (cases "startswith l ''OPENAI_API_KEY=''")
  case True
  with assms have "huggingface k' = huggingface k"
    by (auto simp: dotenv_line_def split: if_splits sum.splits)
  with openai_line_not_huggingface [OF True] show ?thesis
    by (simp add: spec_line_values_def huggingface_names_def present_def)
next
  case no: False
  show ?thesis
  proof (cases "startswith l ''HUGGINGFACE_API_KEY=''")
    case True
    with assms no huggingface_line_split [OF True] show ?thesis
      by (auto simp: dotenv_line_def spec_line_values_def huggingface_names_def present_def
          split: if_splits)
  next
    case nh: False
    show ?thesis
    proof (cases "startswith l ''HF_TOKEN=''")
      case True
      with assms no nh hf_token_line_split [OF True] show ?thesis
        by (auto simp: dotenv_line_def spec_line_values_def huggingface_names_def present_def
            split: if_splits)
    next
      case False
      with assms no nh have "huggingface k' = huggingface k"
        by (auto simp: dotenv_line_def split: if_splits sum.splits)
      with no nh False show ?thesis
        by (simp add: spec_line_values_def huggingface_names_def present_def)
    qed
  qed
qed

lemma dotenv_loop_values:
  "dotenv_loop k ls = Inr k' \<Longrightarrow>
   present (openai k')
     = first_truthy (openai k # concat (map (spec_line_values openai_names) ls))
   \<and> present (huggingface k')
     = first_truthy (huggingface k # concat (map (spec_line_values huggingface_names) ls))"
proof (induction ls arbitrary: k)
  case Nil
  then show ?case by (simp add: present_def)
next
  case (Cons l ls)
  obtain j where j: "dotenv_line k l = Inr j" using dotenv_line_returns by blast
  with Cons.prems have "dotenv_loop j ls = Inr k'" by simp
  from Cons.IH [OF this] first_truthy_step [OF dotenv_line_openai [OF j]]
    first_truthy_step [OF dotenv_line_huggingface [OF j]]
  show ?case by simp
qed

lemma env_get_no_dict:
  "map_of kvs ''env'' = Some v \<Longrightarrow> \<forall>e. v \<noteq> PDict e \<Longrightarrow> isl (env_get (PDict kvs) k)"
  by (cases v) (simp_all add: env_get_def)

lemma env_get_no_object: "\<forall>kvs. config \<noteq> PDict kvs \<Longrightarrow> isl (env_get config k)"
  by (cases config) (simp_all add: env_get_def)

lemma config_body_raises:
  assumes "\<And>k. isl (env_get config k)"
  shows "config_body config keys = keys"
proof -
  have o: "config_openai config keys = Inr keys \<or> isl (config_openai config keys)"
    using assms [of "''OPENAI_API_KEY''"]
    by (cases "env_get config ''OPENAI_API_KEY''") (simp_all add: config_openai_def)
  have h: "config_huggingface config keys = Inr keys \<or> isl (config_huggingface config keys)"
    using assms [of "''HUGGINGFACE_API_KEY''"]
    by (cases "env_get config ''HUGGINGFACE_API_KEY''") (simp_all add: config_huggingface_def)
  from o h show ?thesis
    by (auto simp: config_body_def isl_def split: sum.splits bool.splits)
qed

lemma config_body_no_env:
  assumes n: "has_no_env (Config_json config)"
  shows "config_body config keys = keys"
proof (cases "\<exists>kvs. config = PDict kvs")
  case True
  then obtain kvs where PDict: "config = PDict kvs" by blast
  show ?thesis
  proof (cases "map_of kvs ''env''")
    case None
    then have "''env'' \<notin> fst ` set kvs" by (simp add: map_of_eq_None_iff)
    then show ?thesis by (simp add: PDict config_body_def)
  next
    case (Some v)
    with n PDict have "\<forall>e. v \<noteq> PDict e" by auto
    with Some have "\<And>k. isl (env_get (PDict kvs) k)"
      by (rule env_get_no_dict)
    then show ?thesis unfolding PDict by (rule config_body_raises)
  qed
next
  case False
  then have "\<And>k. isl (env_get config k)" by (simp add: env_get_no_object)
  then show ?thesis by (rule config_body_raises)
qed

lemma load_config_no_env: "has_no_env cfg \<Longrightarrow> load_config cfg keys = Inr keys"
  by (cases cfg) (simp_all add: load_config_def config_body_no_env)

lemma spec_config_values_no_env: "has_no_env cfg \<Longrightarrow> spec_config_values cfg names = []"
  by (cases cfg)
    (auto simp: spec_config_values_def split: pyval.splits option.splits)

lemma config_body_env:
  assumes e: "map_of kvs ''env'' = Some (PDict env)"
  shows "present (openai (config_body (PDict kvs) k))
     = first_truthy (openai k # spec_config_values (Config_json (PDict kvs)) openai_names)"
    and "present (huggingface (config_body (PDict kvs) k))
     = first_truthy (huggingface k
         # spec_config_values (Config_json (PDict kvs)) huggingface_names)"
proof -
  define val where "val n = (case map_of env n of None \<Rightarrow> PNone | Some v \<Rightarrow> v)" for n
  from e have "(''env'', PDict env) \<in> set kvs" by (rule map_of_SomeD)
  then have i: "''env'' \<in> fst ` set kvs" by force
  have g: "env_get (PDict kvs) n = Inr (val n)" for n
    using e by (simp add: env_get_def val_def)
  define k1 where "k1 = (if truthy (openai k) then k else k\<lparr>openai := val ''OPENAI_API_KEY''\<rparr>)"
  define k2 where "k2 = (if truthy (huggingface k1) then k1
     else if truthy (val ''HUGGINGFACE_API_KEY'')
       then k1\<lparr>huggingface := val ''HUGGINGFACE_API_KEY''\<rparr>
       else k1\<lparr>huggingface := val ''HF_TOKEN''\<rparr>)"
  have o: "config_openai (PDict kvs) k = Inr k1"
    by (simp add: config_openai_def g k1_def)
  have h: "config_huggingface (PDict kvs) k1 = Inr k2"
    by (simp add: config_huggingface_def g k2_def)
  have cb: "config_body (PDict kvs) k = k2"
    using i by (simp add: config_body_def o h)
  have so: "spec_config_values (Config_json (PDict kvs)) openai_names = [val ''OPENAI_API_KEY'']"
    using e by (simp add: spec_config_values_def openai_names_def val_def)
  have sh: "spec_config_values (Config_json (PDict kvs)) huggingface_names
      = [val ''HUGGINGFACE_API_KEY'', val ''HF_TOKEN'']"
    using e by (simp add: spec_config_values_def huggingface_names_def val_def)
  show "present (openai (config_body (PDict kvs) k))
     = first_truthy (openai k # spec_config_values (Config_json (PDict kvs)) openai_names)"
    unfolding cb so by (simp add: k2_def k1_def present_def)
  show "present (huggingface (config_body (PDict kvs) k))
     = first_truthy (huggingface k
         # spec_config_values (Config_json (PDict kvs)) huggingface_names)"
    unfolding cb sh by (simp add: k2_def k1_def present_def)
qed

lemma has_env_or_not:
  "has_no_env (Config_json config)
   \<or> (\<exists>kvs env. config = PDict kvs \<and> map_of kvs ''env'' = Some (PDict env))"
  by (cases config) (auto split: option.splits pyval.splits)

lemma load_config_values:
  assumes "cfg \<noteq> Config_no_home" and "cfg \<noteq> Config_inaccessible"
  shows "\<exists>k'. load_config cfg k = Inr k'
     \<and> present (openai k') = first_truthy (openai k # spec_config_values cfg openai_names)
     \<and> present (huggingface k')
         = first_truthy (huggingface k # spec_config_values cfg huggingface_names)"
proof (cases "has_no_env cfg")
  case True
  then show ?thesis
    by (simp add: load_config_no_env spec_config_values_no_env present_def)
next
  case False
  show ?thesis
  proof (cases cfg)
    case (Config_json config)
    with False has_env_or_not [of config] obtain kvs env where
      c: "config = PDict kvs" "map_of kvs ''env'' = Some (PDict env)" by auto
    from config_body_env [OF c(2), of k] show ?thesis
      by (simp add: Config_json c(1) load_config_def)
  next
    case Config_absent
    then show ?thesis by (simp add: load_config_def spec_config_values_def present_def)
  qed (use assms False in simp_all)
qed

lemma environ_values:
  "present (getenv environ ''OPENAI_API_KEY'')
     = first_truthy (spec_environ_values environ openai_names)"
  "present (py_or (getenv environ ''HUGGINGFACE_API_KEY'') (getenv environ ''HF_TOKEN''))
     = first_truthy (spec_environ_values environ huggingface_names)"
  by (simp_all add: spec_environ_values_def openai_names_def huggingface_names_def
      getenv_def py_or_def present_def)

lemma load_api_keys_values:
  assumes d: "dotenv \<noteq> Dotenv_unreadable"
    and c: "cfg \<noteq> Config_no_home" "cfg \<noteq> Config_inaccessible"
  shows "\<exists>k. load_api_keys environ dotenv cfg = Inr k
     \<and> present (openai k) = spec_resolve environ dotenv cfg openai_names
     \<and> present (huggingface k) = spec_resolve environ dotenv cfg huggingface_names"
proof -
  define base where "base = \<lparr>openai = getenv environ ''OPENAI_API_KEY'',
    huggingface = py_or (getenv environ ''HUGGINGFACE_API_KEY'') (getenv environ ''HF_TOKEN'')\<rparr>"
  have b: "present (openai base) = first_truthy (spec_environ_values environ openai_names)"
    "present (huggingface base) = first_truthy (spec_environ_values environ huggingface_names)"
    using environ_values [of environ] by (simp_all add: base_def)
  have "\<exists>m. (case dotenv of Dotenv_absent \<Rightarrow> Inr base | Dotenv_unreadable \<Rightarrow> Inl OSError
                | Dotenv_lines ls \<Rightarrow> dotenv_loop base ls) = Inr m
      \<and> present (openai m)
          = first_truthy (openai base # spec_dotenv_values dotenv openai_names)
      \<and> present (huggingface m)
          = first_truthy (huggingface base # spec_dotenv_values dotenv huggingface_names)"
  proof (cases dotenv)
    case Dotenv_absent
    then show ?thesis by (simp add: spec_dotenv_values_def present_def)
  next
    case Dotenv_unreadable
    with d show ?thesis by simp
  next
    case (Dotenv_lines ls)
    obtain m where m: "dotenv_loop base ls = Inr m" using dotenv_loop_returns by blast
    from dotenv_loop_values [OF m] m Dotenv_lines show ?thesis
      by (simp add: spec_dotenv_values_def)
  qed
  then obtain m where m: "(case dotenv of Dotenv_absent \<Rightarrow> Inr base
        | Dotenv_unreadable \<Rightarrow> Inl OSError
        | Dotenv_lines ls \<Rightarrow> dotenv_loop base ls) = Inr m"
    and mo: "present (openai m)
          = first_truthy (openai base # spec_dotenv_values dotenv openai_names)"
    and mh: "present (huggingface m)
          = first_truthy (huggingface base # spec_dotenv_values dotenv huggingface_names)"
    by blast
  from load_config_values [OF c, of m] obtain k where k: "load_config cfg m = Inr k"
    and ko: "present (openai k) = first_truthy (openai m # spec_config_values cfg openai_names)"
    and kh: "present (huggingface k)
        = first_truthy (huggingface m # spec_config_values cfg huggingface_names)"
    by blast
  have l: "load_api_keys environ dotenv cfg = Inr k"
    using m k by (cases dotenv) (simp_all add: load_api_keys_def base_def [symmetric])
  have "present (openai k) = spec_resolve environ dotenv cfg openai_names"
    unfolding spec_resolve_def ko
    using first_truthy_step [OF mo] first_truthy_step [OF b(1)] by simp
  moreover have "present (huggingface k) = spec_resolve environ dotenv cfg huggingface_names"
    unfolding spec_resolve_def kh
    using first_truthy_step [OF mh] first_truthy_step [OF b(2)] by simp
  ultimately show ?thesis using l by blast
qed

lemma present_None: "present v = PNone \<Longrightarrow> \<not> truthy v"
  by (auto simp: present_def split: if_splits)

lemma main_without_openai_key:
  assumes "load_api_keys environ dotenv cfg = Inr k" and "\<not> truthy (openai k)"
    and "args_provider ar = ''openai''"
  shows "fst (main a environ dotenv cfg ar w) = 1
     \<and> trace (snd (main a environ dotenv cfg ar w)) = trace w
     \<and> Line Cross '' OpenAI API key not found!'' \<in> set (out (snd (main a environ dotenv cfg ar w)))"
  using assms by (simp add: main_def main_openai_def)

lemma main_without_huggingface_key:
  assumes "load_api_keys environ dotenv cfg = Inr k" and "\<not> truthy (huggingface k)"
  shows "args_provider ar = ''huggingface'' \<Longrightarrow>
     fst (main a environ dotenv cfg ar w) = 1
     \<and> trace (snd (main a environ dotenv cfg ar w)) = trace w
     \<and> Line Cross '' HuggingFace token not found!''
         \<in> set (out (snd (main a environ dotenv cfg ar w)))"
    and "args_provider ar = ''auto'' \<Longrightarrow>
     fst (main a environ dotenv cfg ar w) = 1
     \<and> trace (snd (main a environ dotenv cfg ar w)) = trace w
     \<and> Line Warning ''  HuggingFace token not found''
         \<in> set (out (snd (main a environ dotenv cfg ar w)))"
  using assms by (simp_all add: main_def main_huggingface_def)

text \<open>
  Claim C2, as the specification states it, holds for every combination of the three
  sources. A \<open>.env\<close> file that is there and cannot be read makes the routine raise, and
  so does a configuration file that cannot be looked at: the value the environment
  holds is then never returned.
\<close>

theorem credential_precedence_counterexample:
  "spec_resolve (Map.empty(''OPENAI_API_KEY'' \<mapsto> ''sk-env'')) Dotenv_unreadable Config_absent
       openai_names = PStr ''sk-env''
   \<and> load_api_keys (Map.empty(''OPENAI_API_KEY'' \<mapsto> ''sk-env'')) Dotenv_unreadable
       Config_absent = Inl OSError"
  by (simp add: load_api_keys_def spec_resolve_def spec_environ_values_def
      spec_dotenv_values_def spec_config_values_def openai_names_def)

text \<open>
  Claim C2, amended. When the \<open>.env\<close> file is absent or can be read and the
  configuration file can be looked at, credential resolution returns, per key, the
  first value that counts as true in the order environment, \<open>.env\<close> file,
  configuration file, each source read as the specification describes it; a later
  source never replaces an earlier such value. When no source has one, the credential
  counts as false and a run that needs it (\<open>openai\<close> for the paid provider's key,
  \<open>huggingface\<close> or \<open>auto\<close> for the free provider's token) ends with status 1, its
  message printed and no call made.
\<close>

theorem credential_precedence:
  assumes "dotenv \<noteq> Dotenv_unreadable"
    and "cfg \<noteq> Config_no_home" and "cfg \<noteq> Config_inaccessible"
  shows "(\<exists>k. load_api_keys environ dotenv cfg = Inr k
          \<and> present (openai k) = spec_resolve environ dotenv cfg openai_names
          \<and> present (huggingface k) = spec_resolve environ dotenv cfg huggingface_names)
    \<and> (spec_resolve environ dotenv cfg openai_names = PNone
        \<and> args_provider ar = ''openai'' \<longrightarrow>
          fst (main a environ dotenv cfg ar w) = 1
          \<and> trace (snd (main a environ dotenv cfg ar w)) = trace w
          \<and> Line Cross '' OpenAI API key not found!''
              \<in> set (out (snd (main a environ dotenv cfg ar w))))
    \<and> (spec_resolve environ dotenv cfg huggingface_names = PNone
        \<and> args_provider ar = ''huggingface'' \<longrightarrow>
          fst (main a environ dotenv cfg ar w) = 1
          \<and> trace (snd (main a environ dotenv cfg ar w)) = trace w
          \<and> Line Cross '' HuggingFace token not found!''
              \<in> set (out (snd (main a environ dotenv cfg ar w))))
    \<and> (spec_resolve environ dotenv cfg huggingface_names = PNone
        \<and> args_provider ar = ''auto'' \<longrightarrow>
          fst (main a environ dotenv cfg ar w) = 1
          \<and> trace (snd (main a environ dotenv cfg ar w)) = trace w
          \<and> Line Warning ''  HuggingFace token not found''
              \<in> set (out (snd (main a environ dotenv cfg ar w))))"
proof -
  from load_api_keys_values [OF assms, of environ] obtain k where
    k: "load_api_keys environ dotenv cfg = Inr k"
    and o: "present (openai k) = spec_resolve environ dotenv cfg openai_names"
    and h: "present (huggingface k) = spec_resolve environ dotenv cfg huggingface_names"
    by blast
  have 1: "spec_resolve environ dotenv cfg openai_names = PNone
        \<and> args_provider ar = ''openai'' \<longrightarrow>
          fst (main a environ dotenv cfg ar w) = 1
          \<and> trace (snd (main a environ dotenv cfg ar w)) = trace w
          \<and> Line Cross '' OpenAI API key not found!''
              \<in> set (out (snd (main a environ dotenv cfg ar w)))"
    using main_without_openai_key [OF k] present_None [of "openai k"] o by simp
  have 2: "spec_resolve environ dotenv cfg huggingface_names = PNone
        \<and> args_provider ar = ''huggingface'' \<longrightarrow>
          fst (main a environ dotenv cfg ar w) = 1
          \<and> trace (snd (main a environ dotenv cfg ar w)) = trace w
          \<and> Line Cross '' HuggingFace token not found!''
              \<in> set (out (snd (main a environ dotenv cfg ar w)))"
    using main_without_huggingface_key(1) [OF k] present_None [of "huggingface k"] h by simp
  have 3: "spec_resolve environ dotenv cfg huggingface_names = PNone
        \<and> args_provider ar = ''auto'' \<longrightarrow>
          fst (main a environ dotenv cfg ar w) = 1
          \<and> trace (snd (main a environ dotenv cfg ar w)) = trace w
          \<and> Line Warning ''  HuggingFace token not found''
              \<in> set (out (snd (main a environ dotenv cfg ar w)))"
    using main_without_huggingface_key(2) [OF k] present_None [of "huggingface k"] h by simp
  from k o h 1 2 3 show ?thesis by blast
qed

theorem credential_precedence_witness:
  "\<exists>k. load_api_keys (Map.empty(''HF_TOKEN'' \<mapsto> ''hf-env''))
          (Dotenv_lines [''OPENAI_API_KEY=  '', ''HF_TOKEN=hf-file''])
          (Config_json (PDict [(''env'', PDict [(''OPENAI_API_KEY'', PStr ''sk-cfg''),
                                                (''HF_TOKEN'', PStr ''hf-cfg'')])]))
        = Inr k
      \<and> present (openai k) = PStr ''sk-cfg''
      \<and> present (huggingface k) = PStr ''hf-env''"
proof -
  let ?E = "Map.empty(''HF_TOKEN'' \<mapsto> ''hf-env'')"
  let ?D = "Dotenv_lines [''OPENAI_API_KEY=  '', ''HF_TOKEN=hf-file'']"
  let ?C = "Config_json (PDict [(''env'', PDict [(''OPENAI_API_KEY'', PStr ''sk-cfg''),
                                                (''HF_TOKEN'', PStr ''hf-cfg'')])])"
  have o: "spec_resolve ?E ?D ?C openai_names = PStr ''sk-cfg''"
    by code_simp
  have h: "spec_resolve ?E ?D ?C huggingface_names = PStr ''hf-env''"
    by code_simp
  have "?D \<noteq> Dotenv_unreadable" "?C \<noteq> Config_no_home" "?C \<noteq> Config_inaccessible"
    by simp_all
  from credential_precedence [OF this, THEN conjunct1, of ?E] show ?thesis
    unfolding o h .
qed

text \<open>
  Claim C10, as the specification states it, lets credential resolution never fail,
  whatever the state of the configuration file. The test whether the file exists stands
  before the \<open>try\<close>: when the file cannot be looked at, the exception leaves the
  routine.
\<close>

theorem load_api_keys_total_counterexample:
  "load_api_keys Map.empty Dotenv_absent Config_inaccessible = Inl OSError"
  by (simp add: load_api_keys_def load_config_def)

text \<open>
  Claim C10, amended. When the \<open>.env\<close> file is absent or can be read and the
  configuration file can be looked at, \<open>load_api_keys\<close> returns a credential set for
  every state of the configuration file: absent, not readable, not JSON, no object,
  without \<open>env\<close>, with an \<open>env\<close> that is no object, or well formed. A file that is not
  readable or malformed gives exactly the result of an absent file: the exception is
  dropped.
\<close>

theorem load_api_keys_total:
  assumes "dotenv \<noteq> Dotenv_unreadable"
    and "cfg \<noteq> Config_no_home" and "cfg \<noteq> Config_inaccessible"
  shows "(\<exists>keys. load_api_keys environ dotenv cfg = Inr keys)
    \<and> (has_no_env cfg \<longrightarrow>
         load_api_keys environ dotenv cfg = load_api_keys environ dotenv Config_absent)"
proof -
  have "\<exists>keys. load_api_keys environ dotenv cfg = Inr keys"
    using load_api_keys_values [OF assms, of environ] by blast
  moreover have "load_config Config_absent keys = Inr keys" for keys
    by (simp add: load_config_def)
  then have "has_no_env cfg \<longrightarrow>
      load_api_keys environ dotenv cfg = load_api_keys environ dotenv Config_absent"
    by (auto simp: load_api_keys_def Let_def load_config_no_env
        split: dotenv_file.splits sum.splits)
  ultimately show ?thesis by simp
qed

theorem load_api_keys_total_witness:
  "has_no_env (Config_json (PDict [(''env'', PStr ''oops'')]))
   \<and> load_api_keys (Map.empty(''OPENAI_API_KEY'' \<mapsto> ''sk-env''))
         (Dotenv_lines [''HF_TOKEN=hf-file''])
         (Config_json (PDict [(''env'', PStr ''oops'')]))
       = Inr \<lparr>openai = PStr ''sk-env'', huggingface = PStr ''hf-file''\<rparr>"
proof -
  let ?E = "Map.empty(''OPENAI_API_KEY'' \<mapsto> ''sk-env'')"
  let ?D = "Dotenv_lines [''HF_TOKEN=hf-file'']"
  let ?C = "Config_json (PDict [(''env'', PStr ''oops'')])"
  have h: "has_no_env ?C" by simp
  have v: "load_api_keys ?E ?D Config_absent
      = Inr \<lparr>openai = PStr ''sk-env'', huggingface = PStr ''hf-file''\<rparr>"
    by code_simp
  have "?D \<noteq> Dotenv_unreadable" "?C \<noteq> Config_no_home" "?C \<noteq> Config_inaccessible"
    by simp_all
  from load_api_keys_total [OF this, of ?E] h v show ?thesis by simp
qed

section \<open>The name of the saved file\<close>


















section \<open>The retry and the saved file\<close>

lemma save_image_cannot_open:
  assumes "isl (expanduser a d) \<or> \<not> mkdir_ok a \<or> \<not> open_ok a"
  shows "isl (fst (save_image a d f x w)) \<and> fs (snd (save_image a d f x w)) = fs w"
  using assms by (auto simp: save_image_def Let_def split: sum.splits)

lemma hf_finish_cannot_open:
  assumes "isl (expanduser a d) \<or> \<not> mkdir_ok a \<or> \<not> open_ok a"
  shows "fst (hf_finish a p d r w) \<noteq> Inr (Some path)
       \<and> fs (snd (hf_finish a p d r w)) = fs w"
proof (cases "status_code r = 200")
  case True
  obtain sres sw where s: "save_image a d (hf_filename (now a) p) (content r) w = (sres, sw)"
    by (cases "save_image a d (hf_filename (now a) p) (content r) w")
  with save_image_cannot_open [OF assms, of "hf_filename (now a) p" "content r" w]
  obtain e where "sres = Inl e" "fs sw = fs w" by (cases sres) auto
  with s True show ?thesis by (simp add: hf_finish_def)
next
  case False
  then show ?thesis
    by (auto simp: hf_finish_def split: sum.splits)
qed

lemma hf_try_cannot_open:
  assumes "isl (expanduser a d) \<or> \<not> mkdir_ok a \<or> \<not> open_ok a"
  shows "fst (hf_try a p t m d w) \<noteq> Inr (Some path)
       \<and> fs (snd (hf_try a p t m d w)) = fs w"
  using hf_finish_cannot_open [OF assms]
  by (auto simp: hf_try_def Let_def split: http_reply.splits)

lemma generate_image_huggingface_cannot_open:
  assumes "isl (expanduser a d) \<or> \<not> mkdir_ok a \<or> \<not> open_ok a"
  shows "fst (generate_image_huggingface a p t m d w) = None
       \<and> fs (snd (generate_image_huggingface a p t m d w)) = fs w"
proof -
  let ?w0 = "print [Line Art '' Generating image via Hugging Face...'',
                      Line Memo ('' Prompt: '' @ p),
                      Line Robot ('' Model: '' @ m),
                      Line Money '' Cost: FREE!'',
                      Line No_icon []] w"
  obtain tres tw where t: "hf_try a p t m d ?w0 = (tres, tw)"
    by (cases "hf_try a p t m d ?w0")
  with hf_try_cannot_open [OF assms, of p t m ?w0]
  have "\<And>path. tres \<noteq> Inr (Some path)" "fs tw = fs w" by auto
  with t show ?thesis
    by (cases tres; cases "projr tres")
      (auto simp: generate_image_huggingface_def)
qed

lemma generate_image_openai_cannot_open:
  assumes "isl (expanduser a d) \<or> \<not> mkdir_ok a \<or> \<not> open_ok a"
  shows "fst (generate_image_openai a p k s q m d w) = None
       \<and> fs (snd (generate_image_openai a p k s q m d w)) = fs w"
proof -
  let ?w0 = "print (openai_banner p s q m) w"
  obtain fres fw where f: "openai_fetch a p k s q m ?w0 = (fres, fw)"
    by (cases "openai_fetch a p k s q m ?w0")
  from openai_fetch_run [OF f] have fw: "fs fw = fs w" by auto
  show ?thesis
  proof (cases fres)
    case (Inl e)
    with f fw show ?thesis by (simp add: generate_image_openai_def openai_try_def)
  next
    case (Inr ux)
    obtain u x where ux: "ux = (u, x)" by (cases ux)
    obtain sres sw where s: "save_image a d (openai_filename (now a) p) x fw = (sres, sw)"
      by (cases "save_image a d (openai_filename (now a) p) x fw")
    with save_image_cannot_open [OF assms, of "openai_filename (now a) p" x fw]
    obtain e where "sres = Inl e" "fs sw = fs fw" by (cases sres) auto
    with f Inr ux s fw show ?thesis by (simp add: generate_image_openai_def openai_try_def)
  qed
qed

lemma hf_failed_iff:
  "hf_failed a = (\<forall>r. final_reply a = Response r \<longrightarrow> status_code r \<noteq> 200)"
  by (cases "final_reply a") (simp_all add: hf_failed_def)

lemma openai_fetch_failed:
  "openai_failed a \<Longrightarrow> isl (fst (openai_fetch a p k s q m w))"
  by (auto simp: openai_failed_def openai_fetch_def Let_def index_def
      split: openai_reply.splits list.splits option.splits http_reply.splits)

lemma generate_image_openai_failed:
  assumes "openai_failed a"
  shows "fst (generate_image_openai a p k s q m d w) = None
       \<and> fs (snd (generate_image_openai a p k s q m d w)) = fs w"
proof -
  let ?w0 = "print (openai_banner p s q m) w"
  obtain fres fw where f: "openai_fetch a p k s q m ?w0 = (fres, fw)"
    by (cases "openai_fetch a p k s q m ?w0")
  from openai_fetch_failed [OF assms, of p k s q m ?w0] f obtain e where e: "fres = Inl e"
    by (cases fres) auto
  from openai_fetch_run [OF f] have "fs fw = fs w" by auto
  with f e show ?thesis
    by (simp add: generate_image_openai_def openai_try_def)
qed

text \<open>
  Claim C4: on a 503 response to the first request the free provider routine waits once,
  20 seconds, and sends the same request once more; otherwise it sends one request. It
  makes no other call. When the final response (the retry's after a 503, a second 503
  included) has a status other than 200, or the request raised, the routine returns
  \<open>None\<close> after these calls, without touching a file; the body of a failure response
  that is a JSON object gives the error message printed last, its \<open>error\<close> entry or
  \<open>Unknown error\<close>.
\<close>

theorem hf_retries_once:
  "(\<forall>r. post1 a = Response r \<and> status_code r = 503 \<longrightarrow>
      filter is_call
          (trace (snd (generate_image_huggingface a prompt hf_token hf_model output_dir
                         (start files))))
        = [HF_post (hf_request_of prompt hf_token hf_model) (post1 a), Sleep 20,
           HF_post (hf_request_of prompt hf_token hf_model) (post2 a)])
   \<and> ((\<forall>r. post1 a = Response r \<longrightarrow> status_code r \<noteq> 503) \<longrightarrow>
      filter is_call
          (trace (snd (generate_image_huggingface a prompt hf_token hf_model output_dir
                         (start files))))
        = [HF_post (hf_request_of prompt hf_token hf_model) (post1 a)])
   \<and> ((\<forall>r. final_reply a = Response r \<longrightarrow> status_code r \<noteq> 200) \<longrightarrow>
         fst (generate_image_huggingface a prompt hf_token hf_model output_dir (start files))
           = None
         \<and> list_all is_call
             (trace (snd (generate_image_huggingface a prompt hf_token hf_model output_dir
                            (start files))))
         \<and> fs (snd (generate_image_huggingface a prompt hf_token hf_model output_dir
                       (start files))) = files)
   \<and> (\<forall>r kvs. final_reply a = Response r \<and> status_code r \<noteq> 200
          \<and> json r = Inr (PDict kvs) \<longrightarrow>
         last (out (snd (generate_image_huggingface a prompt hf_token hf_model output_dir
                           (start files))))
           = Line_val Cross '' HuggingFace API error: ''
               (case map_of kvs ''error'' of None \<Rightarrow> PStr ''Unknown error'' | Some v \<Rightarrow> v))"
proof -
  let ?rq = "hf_request_of prompt hf_token hf_model"
  obtain res w' where
    g: "generate_image_huggingface a prompt hf_token hf_model output_dir (start files) = (res, w')"
    by (cases "generate_image_huggingface a prompt hf_token hf_model output_dir (start files)")
  from generate_image_huggingface_run [OF g] obtain es ls where
    r: "trace w' = trace (start files) @ es" "filter is_call es = hf_calls a ?rq"
      "(\<forall>r. final_reply a = Response r \<longrightarrow> status_code r \<noteq> 200) \<longrightarrow>
          list_all is_call es \<and> fs w' = fs (start files) \<and> res = None"
      "\<forall>r kvs. final_reply a = Response r \<and> status_code r \<noteq> 200
            \<and> json r = Inr (PDict kvs) \<longrightarrow>
                last (out w') = Line_val Cross '' HuggingFace API error: ''
                       (case map_of kvs ''error'' of None \<Rightarrow> PStr ''Unknown error'' | Some v \<Rightarrow> v)"
    by blast
  have t: "trace w' = es" using r(1) by (simp add: start_def)
  have 1: "\<forall>r. post1 a = Response r \<and> status_code r = 503 \<longrightarrow>
         filter is_call (trace w') = [HF_post ?rq (post1 a), Sleep 20, HF_post ?rq (post2 a)]"
    unfolding t r(2) by (auto simp: hf_calls_def)
  have 2: "(\<forall>r. post1 a = Response r \<longrightarrow> status_code r \<noteq> 503) \<longrightarrow>
         filter is_call (trace w') = [HF_post ?rq (post1 a)]"
    unfolding t r(2) by (cases "post1 a") (auto simp: hf_calls_def)
  have 3: "(\<forall>r. final_reply a = Response r \<longrightarrow> status_code r \<noteq> 200) \<longrightarrow>
      res = None \<and> list_all is_call (trace w') \<and> fs w' = files"
    using r(3) unfolding t by (simp add: start_def)
  from 1 2 3 r(4) show ?thesis unfolding g by simp
qed

theorem hf_retries_once_witness:
  "fst (generate_image_huggingface
         \<lparr>now = \<lparr>year = 2024, month = 3, day = 9, hour = 7, minute = 5, second = 59\<rparr>,
          expanduser = Inr,
          post1 = Response \<lparr>status_code = 503, content = [],
                            json = Inr (PDict [(''error'', PStr ''loading'')])\<rparr>,
          post2 = Response \<lparr>status_code = 503, content = [],
                            json = Inr (PDict [(''error'', PStr ''loading'')])\<rparr>,
          generate = Generate_raises APIError, get = Raises RequestException,
          mkdir_ok = True, open_ok = True, write_ok = True\<rparr>
         ''cat'' (PStr ''hf'') ''m'' ''out'' (start Map.empty)) = None
   \<and> trace (snd (generate_image_huggingface
         \<lparr>now = \<lparr>year = 2024, month = 3, day = 9, hour = 7, minute = 5, second = 59\<rparr>,
          expanduser = Inr,
          post1 = Response \<lparr>status_code = 503, content = [],
                            json = Inr (PDict [(''error'', PStr ''loading'')])\<rparr>,
          post2 = Response \<lparr>status_code = 503, content = [],
                            json = Inr (PDict [(''error'', PStr ''loading'')])\<rparr>,
          generate = Generate_raises APIError, get = Raises RequestException,
          mkdir_ok = True, open_ok = True, write_ok = True\<rparr>
         ''cat'' (PStr ''hf'') ''m'' ''out'' (start Map.empty)))
     = [HF_post \<lparr>url = ''https://api-inference.huggingface.co/models/m'',
                 bearer = PStr ''hf'', inputs = ''cat'', timeout = 30\<rparr>
          (Response \<lparr>status_code = 503, content = [],
                     json = Inr (PDict [(''error'', PStr ''loading'')])\<rparr>),
        Sleep 20,
        HF_post \<lparr>url = ''https://api-inference.huggingface.co/models/m'',
                 bearer = PStr ''hf'', inputs = ''cat'', timeout = 30\<rparr>
          (Response \<lparr>status_code = 503, content = [],
                     json = Inr (PDict [(''error'', PStr ''loading'')])\<rparr>)]"
proof -
  let ?busy = "Response \<lparr>status_code = 503, content = [],
                            json = Inr (PDict [(''error'', PStr ''loading'')])\<rparr>"
  let ?a = "\<lparr>now = \<lparr>year = 2024, month = 3, day = 9, hour = 7, minute = 5, second = 59\<rparr>,
          expanduser = Inr, post1 = ?busy, post2 = ?busy,
          generate = Generate_raises APIError, get = Raises RequestException,
          mkdir_ok = True, open_ok = True, write_ok = True\<rparr>"
  let ?R = "generate_image_huggingface ?a ''cat'' (PStr ''hf'') ''m'' ''out'' (start Map.empty)"
  have f: "\<forall>r. final_reply ?a = Response r \<longrightarrow> status_code r \<noteq> 200"
    by (simp add: final_reply_def)
  have p: "\<exists>r. post1 ?a = Response r \<and> status_code r = 503" by simp
  note h = hf_retries_once [of ?a "''cat''" "PStr ''hf''" "''m''" "''out''" Map.empty]
  from h f have n: "fst ?R = None" and c: "list_all is_call (trace (snd ?R))" by blast+
  from h p have "filter is_call (trace (snd ?R))
      = [HF_post (hf_request_of ''cat'' (PStr ''hf'') ''m'') ?busy, Sleep 20,
         HF_post (hf_request_of ''cat'' (PStr ''hf'') ''m'') ?busy]" by auto
  moreover from c have "filter is_call (trace (snd ?R)) = trace (snd ?R)"
    by (simp add: list_all_iff)
  ultimately show ?thesis using n by (simp add: hf_request_of_def)
qed

text \<open>
  Claim C6, as the specification states it, fails in both halves. A response with
  status 200 and an empty body is saved as it is: the routine succeeds and the file it
  names is empty. And a \<open>write\<close> that raises, after \<open>open\<close> has created the file, makes
  the routine fail with the new, empty file left behind.
\<close>

theorem saved_file_counterexample:
  "fst (generate_image_huggingface
         \<lparr>now = \<lparr>year = 2024, month = 3, day = 9, hour = 7, minute = 5, second = 59\<rparr>,
          expanduser = Inr,
          post1 = Response \<lparr>status_code = 200, content = [], json = Inl JSONDecodeError\<rparr>,
          post2 = Raises RequestException,
          generate = Generate_raises APIError, get = Raises RequestException,
          mkdir_ok = True, open_ok = True, write_ok = True\<rparr>
         ''cat'' (PStr ''hf'') ''m'' ''out'' (start Map.empty))
     = Some ''out/20240309_070559_HF_cat.png''
   \<and> fs (snd (generate_image_huggingface
         \<lparr>now = \<lparr>year = 2024, month = 3, day = 9, hour = 7, minute = 5, second = 59\<rparr>,
          expanduser = Inr,
          post1 = Response \<lparr>status_code = 200, content = [], json = Inl JSONDecodeError\<rparr>,
          post2 = Raises RequestException,
          generate = Generate_raises APIError, get = Raises RequestException,
          mkdir_ok = True, open_ok = True, write_ok = True\<rparr>
         ''cat'' (PStr ''hf'') ''m'' ''out'' (start Map.empty)))
       ''out/20240309_070559_HF_cat.png'' = Some []
   \<and> fst (generate_image_huggingface
         \<lparr>now = \<lparr>year = 2024, month = 3, day = 9, hour = 7, minute = 5, second = 59\<rparr>,
          expanduser = Inr,
          post1 = Response \<lparr>status_code = 200, content = ''PNG'', json = Inl JSONDecodeError\<rparr>,
          post2 = Raises RequestException,
          generate = Generate_raises APIError, get = Raises RequestException,
          mkdir_ok = True, open_ok = True, write_ok = False\<rparr>
         ''cat'' (PStr ''hf'') ''m'' ''out'' (start Map.empty)) = None
   \<and> fs (snd (generate_image_huggingface
         \<lparr>now = \<lparr>year = 2024, month = 3, day = 9, hour = 7, minute = 5, second = 59\<rparr>,
          expanduser = Inr,
          post1 = Response \<lparr>status_code = 200, content = ''PNG'', json = Inl JSONDecodeError\<rparr>,
          post2 = Raises RequestException,
          generate = Generate_raises APIError, get = Raises RequestException,
          mkdir_ok = True, open_ok = True, write_ok = False\<rparr>
         ''cat'' (PStr ''hf'') ''m'' ''out'' (start Map.empty)))
       ''out/20240309_070559_HF_cat.png'' = Some []
   \<and> fs (start Map.empty) ''out/20240309_070559_HF_cat.png'' = None"
  by code_simp

text \<open>
  Claim C6, amended. On a successful path the returned path names an existing file that
  holds exactly the bytes received: the body of the free provider's final response, of
  status 200, or the body of the paid provider's download. On a failure path on which
  the provider call fails, the output directory cannot be expanded or created, or the
  file cannot be opened, the routine returns \<open>None\<close> and no file is created or changed.
\<close>

theorem saved_file_holds_received_bytes:
  "(\<forall>path. fst (generate_image_huggingface a prompt hf_token hf_model output_dir w) = Some path
       \<longrightarrow>
       (\<exists>r. final_reply a = Response r \<and> status_code r = 200
          \<and> fs (snd (generate_image_huggingface a prompt hf_token hf_model output_dir w)) path
              = Some (content r)))
   \<and> (\<forall>path. fst (generate_image_openai a prompt api_key size' quality' model' output_dir w)
         = Some path \<longrightarrow>
       (\<exists>r. get a = Response r
          \<and> fs (snd (generate_image_openai a prompt api_key size' quality' model' output_dir w))
               path = Some (content r)))
   \<and> ((\<forall>r. final_reply a = Response r \<longrightarrow> status_code r \<noteq> 200)
        \<or> isl (expanduser a output_dir) \<or> \<not> mkdir_ok a \<or> \<not> open_ok a \<longrightarrow>
       fst (generate_image_huggingface a prompt hf_token hf_model output_dir w) = None
       \<and> fs (snd (generate_image_huggingface a prompt hf_token hf_model output_dir w)) = fs w)
   \<and> (openai_failed a \<or> isl (expanduser a output_dir) \<or> \<not> mkdir_ok a \<or> \<not> open_ok a
        \<longrightarrow>
       fst (generate_image_openai a prompt api_key size' quality' model' output_dir w) = None
       \<and> fs (snd (generate_image_openai a prompt api_key size' quality' model' output_dir w))
           = fs w)"
proof -
  obtain res w' where
    g: "generate_image_huggingface a prompt hf_token hf_model output_dir w = (res, w')"
    by (cases "generate_image_huggingface a prompt hf_token hf_model output_dir w")
  obtain ores ow where
    o: "generate_image_openai a prompt api_key size' quality' model' output_dir w = (ores, ow)"
    by (cases "generate_image_openai a prompt api_key size' quality' model' output_dir w")
  have 1: "\<forall>path. res = Some path \<longrightarrow>
       (\<exists>r. final_reply a = Response r \<and> status_code r = 200 \<and> fs w' path = Some (content r))"
    using generate_image_huggingface_run [OF g] by auto
  have 2: "\<forall>path. ores = Some path \<longrightarrow>
       (\<exists>r. get a = Response r \<and> fs ow path = Some (content r))"
    using generate_image_openai_run [OF o] by auto
  have 3: "(\<forall>r. final_reply a = Response r \<longrightarrow> status_code r \<noteq> 200)
        \<or> isl (expanduser a output_dir) \<or> \<not> mkdir_ok a \<or> \<not> open_ok a \<longrightarrow>
       res = None \<and> fs w' = fs w"
  proof
    assume "(\<forall>r. final_reply a = Response r \<longrightarrow> status_code r \<noteq> 200)
        \<or> isl (expanduser a output_dir) \<or> \<not> mkdir_ok a \<or> \<not> open_ok a"
    then show "res = None \<and> fs w' = fs w"
    proof
      assume "\<forall>r. final_reply a = Response r \<longrightarrow> status_code r \<noteq> 200"
      with generate_image_huggingface_run [OF g] show ?thesis by auto
    next
      assume "isl (expanduser a output_dir) \<or> \<not> mkdir_ok a \<or> \<not> open_ok a"
      from generate_image_huggingface_cannot_open [OF this, of prompt hf_token hf_model w] g
      show ?thesis by simp
    qed
  qed
  have 4: "openai_failed a \<or> isl (expanduser a output_dir) \<or> \<not> mkdir_ok a \<or> \<not> open_ok a
        \<longrightarrow> ores = None \<and> fs ow = fs w"
  proof
    assume "openai_failed a \<or> isl (expanduser a output_dir) \<or> \<not> mkdir_ok a \<or> \<not> open_ok a"
    then show "ores = None \<and> fs ow = fs w"
    proof
      assume "openai_failed a"
      from generate_image_openai_failed [OF this, of prompt api_key size' quality' model'
          output_dir w] o
      show ?thesis by simp
    next
      assume "isl (expanduser a output_dir) \<or> \<not> mkdir_ok a \<or> \<not> open_ok a"
      from generate_image_openai_cannot_open [OF this, of prompt api_key size' quality' model' w] o
      show ?thesis by simp
    qed
  qed
  from 1 2 3 4 show ?thesis unfolding g o by simp
qed

theorem saved_file_holds_received_bytes_witness:
  "fst (generate_image_openai
         \<lparr>now = \<lparr>year = 2024, month = 3, day = 9, hour = 7, minute = 5, second = 59\<rparr>,
          expanduser = Inr,
          post1 = Raises RequestException, post2 = Raises RequestException,
          generate = Generate_returns [Some ''https://img/1''],
          get = Response \<lparr>status_code = 200, content = ''PNG'', json = Inl JSONDecodeError\<rparr>,
          mkdir_ok = True, open_ok = True, write_ok = True\<rparr>
         ''cat'' (PStr ''sk'') ''1024x1024'' ''standard'' ''dall-e-2'' ''out''
         (start Map.empty))
     = Some ''out/20240309_070559_cat.png''
   \<and> fs (snd (generate_image_openai
         \<lparr>now = \<lparr>year = 2024, month = 3, day = 9, hour = 7, minute = 5, second = 59\<rparr>,
          expanduser = Inr,
          post1 = Raises RequestException, post2 = Raises RequestException,
          generate = Generate_returns [Some ''https://img/1''],
          get = Response \<lparr>status_code = 200, content = ''PNG'', json = Inl JSONDecodeError\<rparr>,
          mkdir_ok = True, open_ok = True, write_ok = True\<rparr>
         ''cat'' (PStr ''sk'') ''1024x1024'' ''standard'' ''dall-e-2'' ''out''
         (start Map.empty))) ''out/20240309_070559_cat.png'' = Some ''PNG''
   \<and> fst (generate_image_huggingface
         \<lparr>now = \<lparr>year = 2024, month = 3, day = 9, hour = 7, minute = 5, second = 59\<rparr>,
          expanduser = Inr,
          post1 = Raises RequestException, post2 = Raises RequestException,
          generate = Generate_returns [Some ''https://img/1''],
          get = Response \<lparr>status_code = 200, content = ''PNG'', json = Inl JSONDecodeError\<rparr>,
          mkdir_ok = True, open_ok = True, write_ok = True\<rparr>
         ''cat'' (PStr ''hf'') ''m'' ''out'' (start Map.empty)) = None"
proof -
  let ?a = "\<lparr>now = \<lparr>year = 2024, month = 3, day = 9, hour = 7, minute = 5, second = 59\<rparr>,
          expanduser = Inr,
          post1 = Raises RequestException, post2 = Raises RequestException,
          generate = Generate_returns [Some ''https://img/1''],
          get = Response \<lparr>status_code = 200, content = ''PNG'', json = Inl JSONDecodeError\<rparr>,
          mkdir_ok = True, open_ok = True, write_ok = True\<rparr>"
  have s: "fst (generate_image_openai ?a ''cat'' (PStr ''sk'') ''1024x1024'' ''standard''
      ''dall-e-2'' ''out'' (start Map.empty)) = Some ''out/20240309_070559_cat.png''"
    by code_simp
  have f: "\<forall>r. final_reply ?a = Response r \<longrightarrow> status_code r \<noteq> 200"
    by (simp add: final_reply_def)
  note h = saved_file_holds_received_bytes [of ?a "''cat''" _ _ "''out''" "start Map.empty"]
  from h [of "PStr ''hf''" "''m''"] f
  have n: "fst (generate_image_huggingface ?a ''cat'' (PStr ''hf'') ''m'' ''out''
      (start Map.empty)) = None" by blast
  from h [of _ _ "PStr ''sk''" "''1024x1024''" "''standard''" "''dall-e-2''"] s
  have "\<exists>r. get ?a = Response r
      \<and> fs (snd (generate_image_openai ?a ''cat'' (PStr ''sk'') ''1024x1024'' ''standard''
         ''dall-e-2'' ''out'' (start Map.empty))) ''out/20240309_070559_cat.png''
         = Some (content r)" by blast
  then have "fs (snd (generate_image_openai ?a ''cat'' (PStr ''sk'') ''1024x1024'' ''standard''
         ''dall-e-2'' ''out'' (start Map.empty))) ''out/20240309_070559_cat.png'' = Some ''PNG''"
    by auto
  with s n show ?thesis by simp
qed

end
